theory Spec2Isabelle
  imports Complex_Main
begin

section \<open>Host values\<close>

text \<open>
  The scripts run on Google Apps Script. A cell read with \<open>getValues()\<close> is a number, a
  string (the empty string for a blank cell), a Date or a boolean. JavaScript numbers are
  modelled as exact rationals (\<open>None\<close> standing for NaN where a number may be NaN): the
  rounding of binary floating point is outside the model. Dates are their \<open>getTime()\<close>
  value, milliseconds since the epoch. Strings are byte strings; \<open>toLowerCase\<close> is
  modelled on the ASCII letters.
\<close>

datatype cell = Num rat | Str string | DateV int | BoolV bool

type_synonym row = "cell list"

text \<open>
  What the host language and the script's time zone decide:
  \<open>startOfDay t\<close> is \<open>d.setHours(0, 0, 0, 0)\<close> on a Date at instant \<open>t\<close>;
  \<open>stringOf c\<close> is \<open>String(c)\<close> for a cell that is not a string;
  \<open>numberOf s\<close> is the numeric reading of a string in an arithmetic expression;
  \<open>parseDate s\<close> is \<open>new Date(s).getTime()\<close>, \<open>None\<close> for an invalid date;
  \<open>localDate y m d\<close> is \<open>new Date(y, m - 1, d).getTime()\<close>.
\<close>

record host =
  startOfDay :: "int \<Rightarrow> int"
  stringOf :: "cell \<Rightarrow> string"
  numberOf :: "string \<Rightarrow> rat option"
  parseDate :: "string \<Rightarrow> int option"
  localDate :: "rat \<Rightarrow> rat \<Rightarrow> rat \<Rightarrow> int option"

definition toLowerChar :: "char \<Rightarrow> char" where
  "toLowerChar c =
     (let n = (of_char c :: nat) in if 65 \<le> n \<and> n \<le> 90 then char_of (n + 32) else c)"

definition toLowerCase :: "string \<Rightarrow> string" where
  "toLowerCase s = map toLowerChar s"

definition startsWith :: "string \<Rightarrow> string \<Rightarrow> bool" where
  "startsWith s p = (take (length p) s = p)"

text \<open>Truthiness of a cell value and the numeric reading of a cell in a subtraction.\<close>

fun truthy :: "cell \<Rightarrow> bool" where
  "truthy (Num r) = (r \<noteq> 0)"
| "truthy (Str s) = (s \<noteq> [])"
| "truthy (DateV d) = True"
| "truthy (BoolV b) = b"

fun toNumber :: "host \<Rightarrow> cell \<Rightarrow> rat option" where
  "toNumber h (Num r) = Some r"
| "toNumber h (Str s) = numberOf h s"
| "toNumber h (DateV d) = Some (of_int d)"
| "toNumber h (BoolV b) = Some (if b then 1 else 0)"


fun js_find :: "('a \<Rightarrow> bool) \<Rightarrow> 'a list \<Rightarrow> 'a option" where
  "js_find P [] = None"
| "js_find P (x # xs) = (if P x then Some x else js_find P xs)"

text \<open>\<open>[...new Set(xs)]\<close>: the distinct elements in the order of their first occurrence.\<close>

definition uniqueValues :: "'a list \<Rightarrow> 'a list" where
  "uniqueValues xs = foldl (\<lambda>acc x. if x \<in> set acc then acc else acc @ [x]) [] xs"

text \<open>Assignment \<open>a[i] = v\<close> to an array: past the end, JavaScript extends the array,
  the holes reading as \<open>undefined\<close> (written to a sheet as a blank).\<close>

definition arraySet :: "row \<Rightarrow> nat \<Rightarrow> cell \<Rightarrow> row" where
  "arraySet xs i v =
     (if i < length xs then xs[i := v] else xs @ replicate (i - length xs) (Str []) @ [v])"

section \<open>Errors\<close>

text \<open>Every \<open>throw\<close> of the scripts and every exception of a host service is a value.
  A \<open>catch\<close> that rethrows with context wraps the error it caught.\<close>

datatype error =
    SheetNotFound
  | RangeError
  | ColumnNotFound string
  | InvalidDate
  | ApiKeyMissing
  | UpstreamError string
  | ServiceFailure
  | TypeError
  | PropertyNotAllowed string
  | ScopeNotPermitted string
  | AmountMismatch
  | ErrFilteringRows error
  | ErrFetchingPayouts error
  | ErrFindingMatch error
  | ErrFetchingTransactions error
  | ErrFetchingCharges error
  | ErrFetchingReceipts error
  | TransactionProcessingFailed error
  | RollbackFailed error

section \<open>Configuration properties (sidebar/logger.js)\<close>

record property_def =
  key :: string
  required :: bool
  scope :: string

definition ALLOWED_PROPERTIES :: "property_def list" where
  "ALLOWED_PROPERTIES =
    [\<lparr>key = ''STRIPE_API_KEY'', required = True, scope = ''script''\<rparr>,
     \<lparr>key = ''RECEIPTS_FOLDER_URL'', required = True, scope = ''document''\<rparr>,
     \<lparr>key = ''STRIPE_PAYOUT_DESCRIPTION_PREFIX'', required = True, scope = ''user''\<rparr>,
     \<lparr>key = ''SUMMARY_EMAIL'', required = True, scope = ''document''\<rparr>,
     \<lparr>key = ''STRIPE_INSTITUTION_NAME'', required = False, scope = ''user''\<rparr>,
     \<lparr>key = ''STRIPE_PAYOUT_CATEGORY_LABEL'', required = False, scope = ''document''\<rparr>,
     \<lparr>key = ''STRIPE_FEE_CATEGORY_LABEL'', required = False, scope = ''document''\<rparr>]"

text \<open>The three property stores of \<open>PropertiesService\<close>; \<open>getProperty\<close> of a store
  answers \<open>null\<close> (\<open>None\<close>) for a key it does not hold.\<close>

record properties =
  scriptProperties :: "string \<rightharpoonup> string"
  documentProperties :: "string \<rightharpoonup> string"
  userProperties :: "string \<rightharpoonup> string"

definition storeValue :: "properties \<Rightarrow> string \<Rightarrow> string \<Rightarrow> string option" where
  "storeValue ps sc propertyName =
     (if sc = ''script'' then scriptProperties ps propertyName
      else if sc = ''document'' then documentProperties ps propertyName
      else if sc = ''user'' then userProperties ps propertyName
      else None)"

definition readScopes :: "string \<Rightarrow> string list" where
  "readScopes declared =
     (let s = toLowerCase declared in
      if s = ''script'' then [''script'', ''document'', ''user'']
      else if s = ''document'' then [''document'', ''user'']
      else if s = ''user'' then [''user'']
      else [])"

fun checkScopes :: "properties \<Rightarrow> string \<Rightarrow> string list \<Rightarrow> string list \<Rightarrow> string option" where
  "checkScopes ps propertyName allowedScopes [] = None"
| "checkScopes ps propertyName allowedScopes (sc # rest) =
     (if sc \<in> set allowedScopes then
        (case storeValue ps sc propertyName of
           Some v \<Rightarrow> Some v
         | None \<Rightarrow> checkScopes ps propertyName allowedScopes rest)
      else checkScopes ps propertyName allowedScopes rest)"

definition getProperty :: "properties \<Rightarrow> string \<Rightarrow> string option" where
  "getProperty ps propertyName =
     (case js_find (\<lambda>prop. key prop = propertyName) ALLOWED_PROPERTIES of
        None \<Rightarrow> None
      | Some propertyDef \<Rightarrow>
          checkScopes ps propertyName (readScopes (scope propertyDef))
            [''script'', ''document'', ''user''])"

definition permittedScopes :: "string \<Rightarrow> string list" where
  "permittedScopes declared =
     (let s = toLowerCase declared in
      if s = ''script'' then [''user'', ''document'', ''script'']
      else if s = ''document'' then [''user'', ''document'']
      else if s = ''user'' then [''user'']
      else [])"

definition setProperty :: "properties \<Rightarrow> string \<Rightarrow> string \<Rightarrow> string \<Rightarrow> error + properties" where
  "setProperty ps propertyName v sc =
     (case js_find (\<lambda>prop. key prop = propertyName) ALLOWED_PROPERTIES of
        None \<Rightarrow> Inl (PropertyNotAllowed propertyName)
      | Some propertyDef \<Rightarrow>
          (let normalizedScope = toLowerCase sc in
           if normalizedScope \<notin> set (permittedScopes (scope propertyDef))
           then Inl (ScopeNotPermitted sc)
           else if normalizedScope = ''user''
             then Inr (ps\<lparr>userProperties := (userProperties ps)(propertyName \<mapsto> v)\<rparr>)
           else if normalizedScope = ''document''
             then Inr (ps\<lparr>documentProperties := (documentProperties ps)(propertyName \<mapsto> v)\<rparr>)
           else if normalizedScope = ''script''
             then Inr (ps\<lparr>scriptProperties := (scriptProperties ps)(propertyName \<mapsto> v)\<rparr>)
           else Inl (ScopeNotPermitted sc)))"

definition sb_getProperty :: "properties \<Rightarrow> string \<Rightarrow> string option" where
  "sb_getProperty ps propertyName = getProperty ps propertyName"

section \<open>Stripe records\<close>

record payout =
  payout_id :: string
  arrival_date :: int
  payout_amount :: int
  destination :: "string option"

record payoutRow =
  rowIndex :: nat
  row_date :: int
  row_amount :: cell
  row_description :: string

text \<open>The envelope of a list request, and the answer of the host's \<open>UrlFetchApp\<close>:
  the call itself throws (\<open>FetchThrows\<close>), or it returns a status other than 200 with a
  body, or it returns status 200 with a parsed body.\<close>

record 'a page =
  page_data :: "'a list"
  has_more :: bool

datatype 'a response = FetchThrows | Status string | Ok200 'a

datatype url =
    PayoutsUrl "string option" "int option" "int option"
  | BalanceTransactionsUrl string "string option"
  | ChargeUrl string
  | ReceiptUrl string

section \<open>Matching (findMatchingPayout)\<close>






section \<open>The world the scripts act on\<close>

text \<open>
  The Transactions sheet is its grid of rows, row 1 the header row; the model keeps the
  columns up to \<open>getLastColumn()\<close>, which are the columns the scripts read and write.
  Drive is the list of ids of the files that are not trashed. \<open>requests\<close> is the log of
  the HTTP requests issued through \<open>UrlFetchApp\<close>, in order. \<open>urlsAccessed\<close>,
  \<open>filesAdded\<close> and \<open>rowsModified\<close> are the scripts' run-scoped accumulators; the text of
  the log entries is not modelled. \<open>emails\<close> are the summaries sent with \<open>MailApp\<close> and
  \<open>alerts\<close> the errors shown with \<open>getUi().alert\<close>.
\<close>

datatype summary = SimpleSummary nat nat nat | RichSummary nat nat nat

record world =
  sheetPresent :: bool
  grid :: "row list"
  drive :: "string list"
  requests :: "url list"
  urlsAccessed :: "url list"
  filesAdded :: "(string \<times> string) list"
  rowsModified :: "(nat \<times> string) list"
  emails :: "summary list"
  alerts :: "error list"

subsection \<open>Sheet operations\<close>

datatype sheet_op =
    InsertRowsAfter nat nat
  | SetValues nat nat "row list"
  | SetValue nat nat cell
  | DeleteRows nat nat

definition blankRow :: "row list \<Rightarrow> row" where
  "blankRow g = replicate (case g of [] \<Rightarrow> 0 | r # _ \<Rightarrow> length r) (Str [])"

definition isBlankRow :: "row \<Rightarrow> bool" where
  "isBlankRow r = list_all (\<lambda>c. c = Str []) r"

definition getLastRow :: "row list \<Rightarrow> nat" where
  "getLastRow g = length (dropWhile isBlankRow (rev g))"

text \<open>\<open>getRange(r, 1, n, numColumns).getValues()\<close>: a range needs at least one row and
  must lie inside the grid.\<close>

definition getValues :: "row list \<Rightarrow> nat \<Rightarrow> int \<Rightarrow> error + row list" where
  "getValues g r n =
     (if r < 1 \<or> n < 1 \<or> int (length g) < int r + n - 1 then Inl RangeError
      else Inr (take (nat n) (drop (r - 1) g)))"

text \<open>
  The deterministic part of the four mutations. Inserting and deleting rows outside the
  grid throws. Writing a block of values needs every row of the block to have the width
  of the range; written past the last row of the grid, the block extends the grid.
\<close>

fun applyOp :: "row list \<Rightarrow> sheet_op \<Rightarrow> error + row list" where
  "applyOp g (InsertRowsAfter pos n) =
     (if pos < 1 \<or> length g < pos \<or> n < 1 then Inl RangeError
      else Inr (take pos g @ replicate n (blankRow g) @ drop pos g))"
| "applyOp g (DeleteRows pos n) =
     (if pos < 1 \<or> n < 1 \<or> length g < pos + n - 1 then Inl RangeError
      else Inr (take (pos - 1) g @ drop (pos - 1 + n) g))"
| "applyOp g (SetValues r numColumns vals) =
     (if r < 1 \<or> vals = [] \<or> numColumns < 1 \<or> \<not> list_all (\<lambda>v. length v = numColumns) vals
      then Inl RangeError
      else Inr (take (r - 1) g @ replicate (r - 1 - length g) (blankRow g) @ vals
                @ drop (r - 1 + length vals) g))"
| "applyOp g (SetValue r c v) =
     (if r < 1 \<or> length g < r \<or> c < 1 \<or> length (g ! (r - 1)) < c then Inl RangeError
      else Inr (g[r - 1 := (g ! (r - 1))[c - 1 := v]]))"

subsection \<open>Stripe objects and the services of the environment\<close>

text \<open>A text field of a parsed JSON object: absent, \<open>null\<close> or a string. In a template
  literal the first two read \<open>undefined\<close> and \<open>null\<close>.\<close>

datatype jsval = Undefined | Null | Text string

fun render :: "jsval \<Rightarrow> string" where
  "render Undefined = ''undefined''"
| "render Null = ''null''"
| "render (Text s) = s"

fun orEmpty :: "jsval \<Rightarrow> jsval" where
  "orEmpty (Text s) = Text s"
| "orEmpty v = Text []"

record fee =
  fee_amount :: "int option"
  fee_type :: jsval
  fee_description :: jsval

text \<open>A balance transaction. \<open>source\<close>, \<open>customer_name\<close> and \<open>receipt_url\<close> are
  \<open>None\<close> when absent or \<open>null\<close>; \<open>tx_amount\<close> is \<open>None\<close> when absent;
  \<open>fee_details\<close> is empty when absent.\<close>

record transaction =
  tx_id :: string
  status :: string
  source :: "string option"
  tx_amount :: "int option"
  reporting_category :: jsval
  tx_description :: jsval
  tx_type :: jsval
  created :: int
  fee_details :: "fee list"
  customer_name :: "string option"
  receipt_url :: "string option"

record charge =
  charge_receipt_url :: "string option"
  charge_customer_name :: "string option"

record receipt =
  contentType :: "string option"
  content :: string

text \<open>
  The environment of a run: the host functions, the property stores, the answers of the
  payment processor and of the receipt hosts, Drive's answer to saving a receipt (the
  file's URL and id, or an exception), and the calls to the sheet service that throw.
  \<open>listPayouts i u\<close> is the answer to the \<open>i\<close>-th payout listing request of the run,
  issued for \<open>u\<close>.
\<close>

record env =
  hostFns :: host
  props :: properties
  listPayouts :: "nat \<Rightarrow> url \<Rightarrow> payout page response"
  listBalanceTransactions :: "url \<Rightarrow> transaction page response"
  getCharge :: "string \<Rightarrow> charge response"
  getReceipt :: "string \<Rightarrow> receipt response"
  driveSave :: "receipt \<Rightarrow> transaction \<Rightarrow> error + (string \<times> string)"
  sheetFault :: "sheet_op \<Rightarrow> bool"

definition sheetCall :: "env \<Rightarrow> row list \<Rightarrow> sheet_op \<Rightarrow> error + row list" where
  "sheetCall e g op = (if sheetFault e op then Inl ServiceFailure else applyOp g op)"

definition falsy :: "string option \<Rightarrow> bool" where
  "falsy v = (case v of None \<Rightarrow> True | Some s \<Rightarrow> s = [])"

section \<open>Payout Source Client (fetchStripePayouts)\<close>

text \<open>The \<open>while (hasMore)\<close> loop. It may run for ever against a source that always
  reports more pages: the loop is a partial function, \<open>None\<close> meaning that it does not
  return.\<close>

partial_function (option) fetchPayoutPages ::
  "env \<Rightarrow> int option \<Rightarrow> int option \<Rightarrow> nat \<Rightarrow> url \<Rightarrow> payout list \<Rightarrow> world
     \<Rightarrow> ((error + payout list) \<times> world) option" where
  "fetchPayoutPages e gte lte i u allPayouts w =
     (case listPayouts e i u of
        FetchThrows \<Rightarrow>
          Some (Inl (ErrFetchingPayouts ServiceFailure), w\<lparr>requests := requests w @ [u]\<rparr>)
      | Status body \<Rightarrow>
          Some (Inl (ErrFetchingPayouts (UpstreamError body)), w\<lparr>requests := requests w @ [u]\<rparr>)
      | Ok200 result \<Rightarrow>
          if has_more result then
            (if page_data result = [] then
               Some (Inl (ErrFetchingPayouts TypeError), w\<lparr>requests := requests w @ [u]\<rparr>)
             else
               fetchPayoutPages e gte lte (Suc i)
                 (PayoutsUrl (Some (payout_id (last (page_data result)))) gte lte)
                 (allPayouts @ page_data result)
                 (w\<lparr>requests := requests w @ [u],
                    urlsAccessed := urlsAccessed w
                      @ [PayoutsUrl (Some (payout_id (last (page_data result)))) gte lte]\<rparr>))
          else Some (Inr (allPayouts @ page_data result), w\<lparr>requests := requests w @ [u]\<rparr>))"

declare fetchPayoutPages.simps [code]

definition timestampOf :: "int option \<Rightarrow> int option" where
  "timestampOf d = map_option (\<lambda>t. t div 1000) d"

definition fetchStripePayouts ::
  "env \<Rightarrow> string option \<Rightarrow> int option \<Rightarrow> int option \<Rightarrow> world
     \<Rightarrow> ((error + payout list) \<times> world) option" where
  "fetchStripePayouts e apiKey startDate endDate w =
     (if falsy apiKey then Some (Inl ApiKeyMissing, w)
      else
        fetchPayoutPages e (timestampOf startDate) (timestampOf endDate) 0
          (PayoutsUrl None (timestampOf startDate) (timestampOf endDate)) []
          (w\<lparr>urlsAccessed := urlsAccessed w
                @ [PayoutsUrl None (timestampOf startDate) (timestampOf endDate)]\<rparr>))"

section \<open>Ledger Row Scanner\<close>

definition cellString :: "host \<Rightarrow> cell \<Rightarrow> string" where
  "cellString h c = (case c of Str s \<Rightarrow> s | _ \<Rightarrow> stringOf h c)"


text \<open>\<open>row[i]\<close> on a row of the rectangular block that \<open>getValues()\<close> returns; the index
  is in range for a column found in the header row, and outside it the model reads a
  blank.\<close>

definition cellAt :: "row \<Rightarrow> nat \<Rightarrow> cell" where
  "cellAt r i = (if i < length r then r ! i else Str [])"

definition orDefault :: "string option \<Rightarrow> string \<Rightarrow> string" where
  "orDefault v d = (case v of None \<Rightarrow> d | Some s \<Rightarrow> if s = [] then d else s)"





section \<open>Detail Fetcher\<close>



definition fetchAllThrows :: "('k \<Rightarrow> 'a response) \<Rightarrow> 'k list \<Rightarrow> bool" where
  "fetchAllThrows api ks = list_ex (\<lambda>k. api k = FetchThrows) ks"





text \<open>\<open>fetchChargesInParallel\<close>: both variants read the key from the script properties.
  A charge that answers with another status than 200 is left out of the map.\<close>

definition fetchChargesInParallel ::
  "env \<Rightarrow> string list \<Rightarrow> world \<Rightarrow> (error + (string \<rightharpoonup> charge)) \<times> world" where
  "fetchChargesInParallel e chargeIds w =
     (if falsy (scriptProperties (props e) ''STRIPE_API_KEY'') then (Inl ApiKeyMissing, w)
      else
        (let uniqueChargeIds = uniqueValues chargeIds;
             w1 = w\<lparr>requests := requests w @ map ChargeUrl uniqueChargeIds,
                    urlsAccessed := urlsAccessed w @ map ChargeUrl uniqueChargeIds\<rparr>
         in if fetchAllThrows (getCharge e) uniqueChargeIds
            then (Inl (ErrFetchingCharges ServiceFailure), w1)
            else (Inr (foldl (\<lambda>chargesMap chargeId.
                               (case getCharge e chargeId of
                                  Ok200 chargeData \<Rightarrow> chargesMap(chargeId \<mapsto> chargeData)
                                | _ \<Rightarrow> chargesMap))
                        Map.empty uniqueChargeIds), w1)))"

section \<open>Receipt Resolver\<close>

text \<open>
  The \<open>forEach\<close> of \<open>fetchAndSaveReceipts\<close> over the responses, one per distinct URL.
  \<open>saveReceiptToDrive\<close> is Drive's business (file name, conversion to PDF, the new file's
  URL and id): its outcome is \<open>driveSave\<close> of the environment. The function returns the
  map from receipt URL to Drive URL and the list \<open>filesCreated\<close>, which the caller owns
  and which keeps the ids pushed before an exception.
\<close>

fun saveReceipts ::
  "env \<Rightarrow> transaction list \<Rightarrow> string list \<Rightarrow> (string \<rightharpoonup> string) \<Rightarrow> string list \<Rightarrow> world
     \<Rightarrow> (error + (string \<rightharpoonup> string)) \<times> string list \<times> world" where
  "saveReceipts e transactions [] receiptFilesMap filesCreated w = (Inr receiptFilesMap, filesCreated, w)"
| "saveReceipts e transactions (receiptUrl # rest) receiptFilesMap filesCreated w =
     (case getReceipt e receiptUrl of
        Ok200 receiptContent \<Rightarrow>
          (if contentType receiptContent = None then (Inl (ErrFetchingReceipts TypeError), filesCreated, w)
           else
             (case js_find (\<lambda>tx. receipt_url tx = Some receiptUrl) transactions of
                None \<Rightarrow> (Inl (ErrFetchingReceipts TypeError), filesCreated, w)
              | Some tx \<Rightarrow>
                  (case driveSave e receiptContent tx of
                     Inl err \<Rightarrow> (Inl (ErrFetchingReceipts err), filesCreated, w)
                   | Inr saveResult \<Rightarrow>
                       saveReceipts e transactions rest
                         (receiptFilesMap(receiptUrl \<mapsto> fst saveResult))
                         (if snd saveResult \<noteq> [] then filesCreated @ [snd saveResult] else filesCreated)
                         (w\<lparr>drive := drive w @ [snd saveResult],
                            filesAdded := filesAdded w @ [(tx_id tx, fst saveResult)]\<rparr>))))
      | _ \<Rightarrow> saveReceipts e transactions rest receiptFilesMap filesCreated w)"

definition fetchAndSaveReceipts ::
  "env \<Rightarrow> string list \<Rightarrow> transaction list \<Rightarrow> string list \<Rightarrow> world
     \<Rightarrow> (error + (string \<rightharpoonup> string)) \<times> string list \<times> world" where
  "fetchAndSaveReceipts e receiptUrls transactions filesCreated w =
     (let uniqueReceiptUrls = uniqueValues receiptUrls;
          w1 = w\<lparr>requests := requests w @ map ReceiptUrl uniqueReceiptUrls,
                 urlsAccessed := urlsAccessed w @ map ReceiptUrl uniqueReceiptUrls\<rparr>
      in if fetchAllThrows (getReceipt e) uniqueReceiptUrls
         then (Inl (ErrFetchingReceipts ServiceFailure), filesCreated, w1)
         else saveReceipts e transactions uniqueReceiptUrls Map.empty filesCreated w1)"

text \<open>\<open>deleteFiles\<close> trashes every file of the list; a deletion that throws is logged and
  skipped, and the model takes Drive to accept every deletion.\<close>

definition deleteFiles :: "string list \<Rightarrow> world \<Rightarrow> world" where
  "deleteFiles filesCreated w = w\<lparr>drive := filter (\<lambda>fileId. fileId \<notin> set filesCreated) (drive w)\<rparr>"

section \<open>Decomposition Engine\<close>

text \<open>The 1-based column positions found in the header row. The simpler variant keeps the
  first four; the namespaced variant also the other five, which its row builders test
  against \<open>undefined\<close> (\<open>None\<close>).\<close>

record columnIndices =
  date_col :: nat
  description_col :: nat
  amount_col :: nat
  receiptUrl_col :: nat
  institution_col :: "nat option"
  accountNumber_col :: "nat option"
  accountId_col :: "nat option"
  category_col :: "nat option"
  transactionId_col :: "nat option"

definition currentColumnIndices :: "columnIndices \<Rightarrow> columnIndices" where
  "currentColumnIndices ci =
     \<lparr>date_col = date_col ci - 1, description_col = description_col ci - 1,
      amount_col = amount_col ci - 1, receiptUrl_col = receiptUrl_col ci - 1,
      institution_col = map_option (\<lambda>i. i - 1) (institution_col ci),
      accountNumber_col = map_option (\<lambda>i. i - 1) (accountNumber_col ci),
      accountId_col = map_option (\<lambda>i. i - 1) (accountId_col ci),
      category_col = map_option (\<lambda>i. i - 1) (category_col ci),
      transactionId_col = map_option (\<lambda>i. i - 1) (transactionId_col ci)\<rparr>"

definition arraySetOpt :: "row \<Rightarrow> nat option \<Rightarrow> cell \<Rightarrow> row" where
  "arraySetOpt xs i v = (case i of None \<Rightarrow> xs | Some j \<Rightarrow> arraySet xs j v)"

text \<open>\<open>x.amount / 100 || 0\<close> for an amount in minor units that may be absent.\<close>

definition amountOf :: "int option \<Rightarrow> rat" where
  "amountOf a = (case a of None \<Rightarrow> 0 | Some n \<Rightarrow> of_int n / 100)"

definition renderOpt :: "string option \<Rightarrow> string" where
  "renderOpt v = (case v of None \<Rightarrow> ''null'' | Some s \<Rightarrow> s)"

definition customerPart :: "string option \<Rightarrow> string" where
  "customerPart n = (if falsy n then [] else '' | Customer: '' @ renderOpt n)"

subsection \<open>The three passes over the transactions that both variants share\<close>

definition isAvailable :: "transaction \<Rightarrow> bool" where
  "isAvailable t = (status t = ''available'')"

definition prepareSource :: "payout \<Rightarrow> transaction \<Rightarrow> transaction" where
  "prepareSource p t =
     (if \<not> isAvailable t then t
      else
        (let src = orDefault (source t) (payout_id p) in
         if startsWith src ''ch_'' then t\<lparr>source := Some src\<rparr>
         else t\<lparr>source := Some src, customer_name := None, receipt_url := None\<rparr>))"

definition chargeSource :: "transaction \<Rightarrow> string option" where
  "chargeSource t =
     (if isAvailable t then
        (case source t of None \<Rightarrow> None | Some src \<Rightarrow> if startsWith src ''ch_'' then Some src else None)
      else None)"

definition transactionChargeMap :: "transaction list \<Rightarrow> (string \<rightharpoonup> string)" where
  "transactionChargeMap ts =
     foldl (\<lambda>m t. case chargeSource t of None \<Rightarrow> m | Some src \<Rightarrow> m(tx_id t \<mapsto> src)) Map.empty ts"

definition truthyOpt :: "string option \<Rightarrow> string option" where
  "truthyOpt v = (if falsy v then None else v)"

definition attachCharge :: "(string \<rightharpoonup> string) \<Rightarrow> (string \<rightharpoonup> charge) \<Rightarrow> transaction \<Rightarrow> transaction" where
  "attachCharge chargeMap chargesMap t =
     (if \<not> isAvailable t then t
      else
        (case (case truthyOpt (chargeMap (tx_id t)) of None \<Rightarrow> None | Some chargeId \<Rightarrow> chargesMap chargeId) of
           Some chargeData \<Rightarrow>
             t\<lparr>customer_name := truthyOpt (charge_customer_name chargeData),
               reporting_category := orEmpty (reporting_category t),
               tx_description := orEmpty (tx_description t),
               receipt_url := truthyOpt (charge_receipt_url chargeData)\<rparr>
         | None \<Rightarrow> t\<lparr>customer_name := None, receipt_url := None\<rparr>))"

definition receiptUrlsOf :: "transaction list \<Rightarrow> string list" where
  "receiptUrlsOf ts = List.map_filter (\<lambda>t. if isAvailable t then receipt_url t else None) ts"

definition receiptDriveUrlOf :: "(string \<rightharpoonup> string) \<Rightarrow> transaction \<Rightarrow> string option" where
  "receiptDriveUrlOf receiptFilesMap t =
     (case truthyOpt (receipt_url t) of
        None \<Rightarrow> None
      | Some u \<Rightarrow> truthyOpt (receiptFilesMap u))"

text \<open>What the \<open>try\<close> block of \<open>processPayoutTransactions\<close> leaves behind for its
  \<open>catch\<close>: the outcome, the transactions as mutated so far, the length of
  \<open>newRowsData\<close>, the files created, and the world.\<close>

record 'a attempt =
  outcome :: "error + 'a"
  txs :: "transaction list"
  newRowsCount :: nat
  filesCreated :: "string list"
  after :: world

definition resolveDetails :: "env \<Rightarrow> payout \<Rightarrow> transaction list \<Rightarrow> world \<Rightarrow> (string \<rightharpoonup> string) attempt" where
  "resolveDetails e p transactions w =
     (let ts1 = map (prepareSource p) transactions in
      case fetchChargesInParallel e (List.map_filter chargeSource ts1) w of
        (Inl err, w1) \<Rightarrow>
          \<lparr>outcome = Inl err, txs = ts1, newRowsCount = 0, filesCreated = [], after = w1\<rparr>
      | (Inr chargesMap, w1) \<Rightarrow>
          (let ts2 = map (attachCharge (transactionChargeMap ts1) chargesMap) ts1 in
           case fetchAndSaveReceipts e (receiptUrlsOf ts2) ts2 [] w1 of
             (res, fc, w2) \<Rightarrow>
               \<lparr>outcome = res, txs = ts2, newRowsCount = 0, filesCreated = fc, after = w2\<rparr>))"

subsection \<open>Row builders of the simpler variant (src/stripeReconciliation.js)\<close>

definition createTransactionRow ::
  "host \<Rightarrow> row \<Rightarrow> transaction \<Rightarrow> columnIndices \<Rightarrow> cell \<Rightarrow> rat \<Rightarrow> string option \<Rightarrow> row" where
  "createTransactionRow h baseRowData t ci originalPayoutDescription transactionAmount receiptDriveUrl =
     (let rowData = arraySet baseRowData (amount_col ci) (Num transactionAmount);
          description =
            render (reporting_category t) @ '': '' @ render (tx_description t)
            @ '' ('' @ render (tx_type t) @ '')''
            @ '' | Source: '' @ renderOpt (source t)
            @ customerPart (customer_name t)
            @ '' | '' @ cellString h originalPayoutDescription;
          rowData = arraySet rowData (description_col ci) (Str description);
          rowData = arraySet rowData (date_col ci) (DateV (created t * 1000))
      in arraySet rowData (receiptUrl_col ci) (Str (orDefault receiptDriveUrl [])))"

definition createFeeRow ::
  "host \<Rightarrow> row \<Rightarrow> fee \<Rightarrow> transaction \<Rightarrow> columnIndices \<Rightarrow> cell \<Rightarrow> rat \<Rightarrow> string option \<Rightarrow> row" where
  "createFeeRow h baseRowData f parentTransaction ci originalPayoutDescription feeAmount receiptDriveUrl =
     (let rowData = arraySet baseRowData (amount_col ci) (Num (- feeAmount));
          description =
            render (reporting_category parentTransaction) @ '': '' @ render (fee_description f)
            @ '' ('' @ render (fee_type f) @ '')''
            @ '' | Source: '' @ renderOpt (source parentTransaction)
            @ customerPart (customer_name parentTransaction)
            @ '' | '' @ cellString h originalPayoutDescription;
          rowData = arraySet rowData (description_col ci) (Str description);
          rowData = arraySet rowData (date_col ci) (DateV (created parentTransaction * 1000))
      in arraySet rowData (receiptUrl_col ci) (Str (orDefault receiptDriveUrl [])))"

definition transactionRows ::
  "host \<Rightarrow> row \<Rightarrow> columnIndices \<Rightarrow> cell \<Rightarrow> (string \<rightharpoonup> string) \<Rightarrow> transaction \<Rightarrow> row list" where
  "transactionRows h payoutRowData ci originalPayoutDescription receiptFilesMap t =
     (if \<not> isAvailable t then []
      else
        createTransactionRow h payoutRowData t ci originalPayoutDescription
          (amountOf (tx_amount t)) (receiptDriveUrlOf receiptFilesMap t)
        # map (\<lambda>f. createFeeRow h payoutRowData f t ci originalPayoutDescription
                      (amountOf (fee_amount f)) (receiptDriveUrlOf receiptFilesMap t))
            (fee_details t))"

definition newRowsData ::
  "host \<Rightarrow> row \<Rightarrow> columnIndices \<Rightarrow> cell \<Rightarrow> (string \<rightharpoonup> string) \<Rightarrow> transaction list \<Rightarrow> row list" where
  "newRowsData h payoutRowData ci originalPayoutDescription receiptFilesMap ts =
     concat (map (transactionRows h payoutRowData ci originalPayoutDescription receiptFilesMap) ts)"

definition rowLabels :: "transaction list \<Rightarrow> string list" where
  "rowLabels ts =
     concat (map (\<lambda>t. if isAvailable t then tx_id t # map (\<lambda>f. render (fee_type f)) (fee_details t)
                       else []) ts)"

subsection \<open>Row builders of the namespaced variant (src/tiller\_tools/stripe/stripeReconciliation.js)\<close>

text \<open>The constants of the namespace, read once through \<open>sb_getProperty\<close>.\<close>

record labels =
  institutionName :: string
  payoutCategoryLabel :: string
  feeCategoryLabel :: string

definition stripeLabels :: "properties \<Rightarrow> labels" where
  "stripeLabels ps =
     \<lparr>institutionName = orDefault (sb_getProperty ps ''STRIPE_INSTITUTION_NAME'') ''Stripe'',
      payoutCategoryLabel =
        orDefault (sb_getProperty ps ''STRIPE_PAYOUT_CATEGORY_LABEL'') ''Bank Account transfer'',
      feeCategoryLabel = orDefault (sb_getProperty ps ''STRIPE_FEE_CATEGORY_LABEL'') ''Finance Fee''\<rparr>"

definition tt_createTransactionRow ::
  "host \<Rightarrow> labels \<Rightarrow> row \<Rightarrow> transaction \<Rightarrow> columnIndices \<Rightarrow> cell \<Rightarrow> rat \<Rightarrow> string option
     \<Rightarrow> cell \<Rightarrow> string \<Rightarrow> row" where
  "tt_createTransactionRow h lb baseRowData t ci originalPayoutDescription transactionAmount
       receiptDriveUrl category stripeAccountNumber =
     (let rowData = arraySet baseRowData (amount_col ci) (Num transactionAmount);
          description =
            render (reporting_category t) @ '':''
            @ customerPart (customer_name t)
            @ '' | '' @ render (tx_type t) @ '': '' @ render (tx_description t)
            @ '' | '' @ cellString h originalPayoutDescription
            @ '' | Source: '' @ renderOpt (source t);
          rowData = arraySet rowData (description_col ci) (Str description);
          rowData = arraySet rowData (date_col ci) (DateV (created t * 1000));
          rowData = arraySet rowData (receiptUrl_col ci) (Str (orDefault receiptDriveUrl []));
          rowData = arraySetOpt rowData (institution_col ci) (Str (institutionName lb));
          rowData = arraySetOpt rowData (accountNumber_col ci) (Str stripeAccountNumber);
          rowData = arraySetOpt rowData (accountId_col ci) (Str [])
      in arraySetOpt rowData (category_col ci) category)"

definition tt_createFeeRow ::
  "host \<Rightarrow> labels \<Rightarrow> row \<Rightarrow> fee \<Rightarrow> transaction \<Rightarrow> columnIndices \<Rightarrow> cell \<Rightarrow> rat \<Rightarrow> string option
     \<Rightarrow> cell \<Rightarrow> string \<Rightarrow> row" where
  "tt_createFeeRow h lb baseRowData f parentTransaction ci originalPayoutDescription feeAmount
       receiptDriveUrl category stripeAccountNumber =
     (let rowData = arraySet baseRowData (amount_col ci) (Num (- feeAmount));
          description =
            render (reporting_category parentTransaction) @ '':''
            @ customerPart (customer_name parentTransaction)
            @ '' | '' @ render (fee_type f) @ ''}: '' @ render (fee_description f)
            @ '' | '' @ cellString h originalPayoutDescription
            @ '' | Source: '' @ renderOpt (source parentTransaction);
          rowData = arraySet rowData (description_col ci) (Str description);
          rowData = arraySet rowData (date_col ci) (DateV (created parentTransaction * 1000));
          rowData = arraySet rowData (receiptUrl_col ci) (Str (orDefault receiptDriveUrl []));
          rowData = arraySetOpt rowData (category_col ci)
                      (if feeCategoryLabel lb \<noteq> [] then Str (feeCategoryLabel lb) else category);
          rowData = arraySetOpt rowData (institution_col ci) (Str (institutionName lb));
          rowData = arraySetOpt rowData (accountNumber_col ci) (Str stripeAccountNumber);
          rowData = arraySetOpt rowData (accountId_col ci) (Str [])
      in arraySetOpt rowData (transactionId_col ci) (Str []))"

definition categoryOf :: "labels \<Rightarrow> row \<Rightarrow> columnIndices \<Rightarrow> transaction \<Rightarrow> cell" where
  "categoryOf lb payoutRowData ci t =
     (if reporting_category t = Text ''payout'' then Str (payoutCategoryLabel lb)
      else (case category_col ci of
              None \<Rightarrow> Str []
            | Some i \<Rightarrow> if truthy (cellAt payoutRowData i) then cellAt payoutRowData i else Str []))"

definition tt_transactionRows ::
  "host \<Rightarrow> labels \<Rightarrow> payout \<Rightarrow> row \<Rightarrow> columnIndices \<Rightarrow> cell \<Rightarrow> (string \<rightharpoonup> string) \<Rightarrow> transaction
     \<Rightarrow> row list" where
  "tt_transactionRows h lb p payoutRowData ci originalPayoutDescription receiptFilesMap t =
     (if \<not> isAvailable t then []
      else
        tt_createTransactionRow h lb payoutRowData t ci originalPayoutDescription
          (amountOf (tx_amount t)) (receiptDriveUrlOf receiptFilesMap t)
          (categoryOf lb payoutRowData ci t) (orDefault (destination p) [])
        # map (\<lambda>f. tt_createFeeRow h lb payoutRowData f t ci originalPayoutDescription
                      (amountOf (fee_amount f)) (receiptDriveUrlOf receiptFilesMap t)
                      (categoryOf lb payoutRowData ci t) (orDefault (destination p) []))
            (fee_details t))"

definition tt_newRowsData ::
  "host \<Rightarrow> labels \<Rightarrow> payout \<Rightarrow> row \<Rightarrow> columnIndices \<Rightarrow> cell \<Rightarrow> (string \<rightharpoonup> string)
     \<Rightarrow> transaction list \<Rightarrow> row list" where
  "tt_newRowsData h lb p payoutRowData ci originalPayoutDescription receiptFilesMap ts =
     concat (map (tt_transactionRows h lb p payoutRowData ci originalPayoutDescription receiptFilesMap) ts)"

subsection \<open>Sum conservation\<close>

text \<open>The \<open>reduce\<close> over \<open>newRowsData\<close>: the amounts of the rows whose amount cell is a
  number.\<close>

definition totalProcessedAmount :: "row list \<Rightarrow> nat \<Rightarrow> rat" where
  "totalProcessedAmount rows amountIndex =
     foldl (\<lambda>acc r. acc + (case cellAt r amountIndex of Num a \<Rightarrow> a | _ \<Rightarrow> 0)) 0 rows"

text \<open>The test of the simpler variant, \<open>Math.abs(total - payoutRow.amount) > 0.01\<close>, and of
  the namespaced variant, \<open>Math.abs(total) > 0.01\<close>. A comparison with NaN is false.\<close>

definition amountMismatch :: "host \<Rightarrow> rat \<Rightarrow> cell \<Rightarrow> bool" where
  "amountMismatch h totalAmount payoutAmount =
     (case toNumber h payoutAmount of None \<Rightarrow> False | Some a \<Rightarrow> \<bar>totalAmount - a\<bar> > 1 / 100)"

definition tt_amountMismatch :: "rat \<Rightarrow> bool" where
  "tt_amountMismatch totalAmount = (\<bar>totalAmount\<bar> > 1 / 100)"

text \<open>The error of the mismatch branch: its message calls \<open>payoutRow.amount.toFixed(2)\<close>,
  which only a number has.\<close>

definition mismatchError :: "cell \<Rightarrow> error" where
  "mismatchError payoutAmount = (case payoutAmount of Num a \<Rightarrow> AmountMismatch | _ \<Rightarrow> TypeError)"

section \<open>Ledger Writer and Rollback Manager\<close>

text \<open>The \<open>else\<close> branch after the conservation test: insertion of the rows after the
  payout row and, in the simpler variant only, the payout row's Amount set to zero. The
  grid returned with an error is the grid at the point of the exception.\<close>

definition insertNewRows :: "env \<Rightarrow> row list \<Rightarrow> nat \<Rightarrow> nat \<Rightarrow> row list \<Rightarrow> (error + unit) \<times> row list" where
  "insertNewRows e g payoutRowIndex numColumns rows =
     (if rows = [] then (Inr (), g)
      else
        (case sheetCall e g (InsertRowsAfter payoutRowIndex (length rows)) of
           Inl err \<Rightarrow> (Inl err, g)
         | Inr g1 \<Rightarrow>
             (case sheetCall e g1 (SetValues (payoutRowIndex + 1) numColumns rows) of
                Inl err \<Rightarrow> (Inl err, g1)
              | Inr g2 \<Rightarrow> (Inr (), g2))))"

definition commitRows ::
  "env \<Rightarrow> row list \<Rightarrow> nat \<Rightarrow> nat \<Rightarrow> nat \<Rightarrow> row list \<Rightarrow> (error + unit) \<times> row list" where
  "commitRows e g payoutRowIndex numColumns amountColumnIndex rows =
     (case insertNewRows e g payoutRowIndex numColumns rows of
        (Inl err, g1) \<Rightarrow> (Inl err, g1)
      | (Inr u, g1) \<Rightarrow>
          (case sheetCall e g1 (SetValue payoutRowIndex amountColumnIndex (Num 0)) of
             Inl err \<Rightarrow> (Inl err, g1)
           | Inr g2 \<Rightarrow> (Inr (), g2)))"

definition tt_commitRows :: "env \<Rightarrow> row list \<Rightarrow> nat \<Rightarrow> nat \<Rightarrow> row list \<Rightarrow> (error + unit) \<times> row list" where
  "tt_commitRows e g payoutRowIndex numColumns rows = insertNewRows e g payoutRowIndex numColumns rows"

definition rollbackChanges ::
  "env \<Rightarrow> row list \<Rightarrow> nat \<Rightarrow> nat \<Rightarrow> row list \<Rightarrow> (error + unit) \<times> row list" where
  "rollbackChanges e g payoutRowIndex rowsCount originalData =
     (case (if rowsCount > 0 then sheetCall e g (DeleteRows (payoutRowIndex + 1) rowsCount) else Inr g) of
        Inl err \<Rightarrow> (Inl (RollbackFailed err), g)
      | Inr g1 \<Rightarrow>
          (case originalData of
             [] \<Rightarrow> (Inl (RollbackFailed TypeError), g1)
           | first # _ \<Rightarrow>
               (case sheetCall e g1 (SetValues payoutRowIndex (length first) originalData) of
                  Inl err \<Rightarrow> (Inl (RollbackFailed err), g1)
                | Inr g2 \<Rightarrow> (Inr (), g2))))"

text \<open>The \<open>catch\<close> block of \<open>processPayoutTransactions\<close>: the files are deleted, the sheet
  is rolled back, and the error is rethrown with the payout's context; a failure of the
  rollback is thrown instead.\<close>

definition compensate ::
  "env \<Rightarrow> nat \<Rightarrow> row list \<Rightarrow> unit attempt \<Rightarrow> (error + unit) \<times> transaction list \<times> world" where
  "compensate e payoutRowIndex originalData a =
     (case outcome a of
        Inr u \<Rightarrow> (Inr (), txs a, after a)
      | Inl err \<Rightarrow>
          (let w1 = deleteFiles (filesCreated a) (after a) in
           case rollbackChanges e (grid w1) payoutRowIndex (newRowsCount a) originalData of
             (Inl rollbackError, g) \<Rightarrow> (Inl rollbackError, txs a, w1\<lparr>grid := g\<rparr>)
           | (Inr u, g) \<Rightarrow> (Inl (TransactionProcessingFailed err), txs a, w1\<lparr>grid := g\<rparr>)))"

text \<open>The \<open>try\<close> block of the simpler variant after the receipts are saved.\<close>

definition decompose ::
  "env \<Rightarrow> payoutRow \<Rightarrow> row \<Rightarrow> row \<Rightarrow> columnIndices \<Rightarrow> (string \<rightharpoonup> string) attempt \<Rightarrow> unit attempt" where
  "decompose e payoutRow headers payoutRowData ci a =
     (case outcome a of
        Inl err \<Rightarrow> \<lparr>outcome = Inl err, txs = txs a, newRowsCount = 0,
                     filesCreated = filesCreated a, after = after a\<rparr>
      | Inr receiptFilesMap \<Rightarrow>
          (let cur = currentColumnIndices ci;
               rows = newRowsData (hostFns e) payoutRowData cur
                        (cellAt payoutRowData (description_col ci - 1)) receiptFilesMap (txs a);
               w1 = (after a)\<lparr>rowsModified := rowsModified (after a)
                       @ zip [rowIndex payoutRow + 1 ..< rowIndex payoutRow + 1 + length rows]
                             (rowLabels (txs a))\<rparr>
           in if amountMismatch (hostFns e) (totalProcessedAmount rows (amount_col cur)) (row_amount payoutRow)
              then \<lparr>outcome = Inl (mismatchError (row_amount payoutRow)), txs = txs a,
                    newRowsCount = length rows, filesCreated = filesCreated a,
                    after = deleteFiles (filesCreated a) w1\<rparr>
              else
                (case commitRows e (grid w1) (rowIndex payoutRow) (length headers) (amount_col ci) rows of
                   (res, g) \<Rightarrow> \<lparr>outcome = res, txs = txs a, newRowsCount = length rows,
                                 filesCreated = filesCreated a, after = w1\<lparr>grid := g\<rparr>\<rparr>)))"

definition tt_decompose ::
  "env \<Rightarrow> payoutRow \<Rightarrow> payout \<Rightarrow> row \<Rightarrow> row \<Rightarrow> columnIndices \<Rightarrow> (string \<rightharpoonup> string) attempt
     \<Rightarrow> unit attempt" where
  "tt_decompose e payoutRow p headers payoutRowData ci a =
     (case outcome a of
        Inl err \<Rightarrow> \<lparr>outcome = Inl err, txs = txs a, newRowsCount = 0,
                     filesCreated = filesCreated a, after = after a\<rparr>
      | Inr receiptFilesMap \<Rightarrow>
          (let cur = currentColumnIndices ci;
               rows = tt_newRowsData (hostFns e) (stripeLabels (props e)) p payoutRowData cur
                        (cellAt payoutRowData (description_col ci - 1)) receiptFilesMap (txs a)
           in if tt_amountMismatch (totalProcessedAmount rows (amount_col cur))
              then \<lparr>outcome = Inl (mismatchError (row_amount payoutRow)), txs = txs a,
                    newRowsCount = length rows, filesCreated = filesCreated a,
                    after = deleteFiles (filesCreated a) (after a)\<rparr>
              else
                (case tt_commitRows e (grid (after a)) (rowIndex payoutRow) (length headers) rows of
                   (res, g) \<Rightarrow> \<lparr>outcome = res, txs = txs a, newRowsCount = length rows,
                                 filesCreated = filesCreated a, after = (after a)\<lparr>grid := g\<rparr>\<rparr>)))"

text \<open>\<open>processPayoutTransactions\<close> of the two variants. Its first test, of arguments
  that are \<open>null\<close> or \<open>undefined\<close>, never fires on the objects the caller passes and is
  left out. The two reads of the sheet before the \<open>try\<close> block throw to the caller. The
  result carries the transactions, which the function mutates in place.\<close>

definition processPayoutTransactions ::
  "env \<Rightarrow> payoutRow \<Rightarrow> payout \<Rightarrow> transaction list \<Rightarrow> row \<Rightarrow> columnIndices \<Rightarrow> world
     \<Rightarrow> (error + unit) \<times> transaction list \<times> world" where
  "processPayoutTransactions e payoutRow p transactions headers ci w =
     (case getValues (grid w) (rowIndex payoutRow) 1 of
        Inl err \<Rightarrow> (Inl err, transactions, w)
      | Inr payoutRowRange \<Rightarrow>
          (case getValues (grid w) (rowIndex payoutRow)
                  (int (getLastRow (grid w)) - int (rowIndex payoutRow) + 1) of
             Inl err \<Rightarrow> (Inl err, transactions, w)
           | Inr originalData \<Rightarrow>
               compensate e (rowIndex payoutRow) originalData
                 (decompose e payoutRow headers (hd payoutRowRange) ci
                    (resolveDetails e p transactions w))))"

definition tt_processPayoutTransactions ::
  "env \<Rightarrow> payoutRow \<Rightarrow> payout \<Rightarrow> transaction list \<Rightarrow> row \<Rightarrow> columnIndices \<Rightarrow> world
     \<Rightarrow> (error + unit) \<times> transaction list \<times> world" where
  "tt_processPayoutTransactions e payoutRow p transactions headers ci w =
     (case getValues (grid w) (rowIndex payoutRow) 1 of
        Inl err \<Rightarrow> (Inl err, transactions, w)
      | Inr payoutRowRange \<Rightarrow>
          (case getValues (grid w) (rowIndex payoutRow)
                  (int (getLastRow (grid w)) - int (rowIndex payoutRow) + 1) of
             Inl err \<Rightarrow> (Inl err, transactions, w)
           | Inr originalData \<Rightarrow>
               compensate e (rowIndex payoutRow) originalData
                 (tt_decompose e payoutRow p headers (hd payoutRowRange) ci
                    (resolveDetails e p transactions w))))"

section \<open>The run (processStripePayouts)\<close>


subsection \<open>Date bounds\<close>









subsection \<open>The simpler variant\<close>






subsection \<open>The namespaced variant\<close>







section \<open>Specification-level notions and example values\<close>



text \<open>The URL of the \<open>i\<close>-th listing request when the source answers the pages \<open>pg\<close>:
  the first without a cursor, each later one with \<open>starting_after\<close> the id of the last
  record of the page before.\<close>

fun requestUrl :: "(nat \<Rightarrow> payout page) \<Rightarrow> int option \<Rightarrow> int option \<Rightarrow> nat \<Rightarrow> url" where
  "requestUrl pg gte lte 0 = PayoutsUrl None gte lte"
| "requestUrl pg gte lte (Suc i) = PayoutsUrl (Some (payout_id (last (page_data (pg i))))) gte lte"

text \<open>What Drive stores for a receipt URL when its fetch answers 200 and the save
  succeeds: the new file's URL and id.\<close>

definition savedAs :: "env \<Rightarrow> transaction list \<Rightarrow> string \<Rightarrow> (string \<times> string) option" where
  "savedAs e ts u =
     (case getReceipt e u of
        Ok200 receiptContent \<Rightarrow>
          (case js_find (\<lambda>tx. receipt_url tx = Some u) ts of
             None \<Rightarrow> None
           | Some tx \<Rightarrow> (case driveSave e receiptContent tx of Inl err \<Rightarrow> None | Inr r \<Rightarrow> Some r))
      | _ \<Rightarrow> None)"


text \<open>A grid with a block of rows placed right after row \<open>i\<close>; a grid with the cell in
  column \<open>c\<close> of row \<open>i\<close> set to zero; the rows of the sheet up to its last row with
  content; a grid whose rows all have the width of the header row, which has a column.\<close>

definition inserted :: "row list \<Rightarrow> nat \<Rightarrow> row list \<Rightarrow> row list" where
  "inserted g i rows = (if rows = [] then g else take i g @ rows @ drop i g)"


definition dataRows :: "row list \<Rightarrow> row list" where
  "dataRows g = take (getLastRow g) g"

definition rectangular :: "row list \<Rightarrow> bool" where
  "rectangular g = (g \<noteq> [] \<and> hd g \<noteq> [] \<and> list_all (\<lambda>r. length r = length (hd g)) g)"

text \<open>The grids in which a failed insertion of \<open>n\<close> rows after row \<open>i\<close> can leave the
  sheet: untouched, or with a block of \<open>n\<close> rows after row \<open>i\<close>.\<close>

definition partlyWritten :: "row list \<Rightarrow> nat \<Rightarrow> nat \<Rightarrow> row list \<Rightarrow> bool" where
  "partlyWritten g i n g' =
     (g' = g \<or> (0 < n \<and> 1 \<le> i \<and> i \<le> length g
                 \<and> (\<exists>block. length block = n \<and> g' = take i g @ block @ drop i g)))"



text \<open>A host in a zone eight hours behind UTC with no daylight saving; a ledger row dated
  1 March 2024 (local midnight) of amount 500.00; three processor payouts of 50000 minor
  units, the first arriving on 29 February 2024, the other two on 1 March 2024.\<close>

definition pacificHost :: host where
  "pacificHost = \<lparr>startOfDay = (\<lambda>t. t - (t - 28800000) mod 86400000),
                   stringOf = (\<lambda>c. []), numberOf = (\<lambda>s. None), parseDate = (\<lambda>s. None),
                   localDate = (\<lambda>y m d. None)\<rparr>"

definition exRow :: payoutRow where
  "exRow = \<lparr>rowIndex = 2, row_date = 1709280000000, row_amount = Num 500,
             row_description = ''Orig Co Name:stripe Orig ID:x8598 payout''\<rparr>"

definition exPayouts :: "payout list" where
  "exPayouts =
     [\<lparr>payout_id = ''po_1'', arrival_date = 1709164800, payout_amount = 50000, destination = Some ''ba_1''\<rparr>,
      \<lparr>payout_id = ''po_2'', arrival_date = 1709251200, payout_amount = 50000, destination = Some ''ba_1''\<rparr>,
      \<lparr>payout_id = ''po_3'', arrival_date = 1709251200, payout_amount = 50000, destination = Some ''ba_1''\<rparr>]"

definition exProperties :: properties where
  "exProperties =
     \<lparr>scriptProperties = [''STRIPE_API_KEY'' \<mapsto> ''sk_script'', ''SUMMARY_EMAIL'' \<mapsto> ''script@example.org''],
      documentProperties = [''RECEIPTS_FOLDER_URL'' \<mapsto> ''doc-folder''],
      userProperties = [''STRIPE_API_KEY'' \<mapsto> ''sk_user'', ''RECEIPTS_FOLDER_URL'' \<mapsto> ''user-folder'']\<rparr>"

text \<open>A processor that lists the three payouts on two pages, whatever the request; the
  balance transactions of payout \<open>po_2\<close>: two available charges of 300.00 (with a fee of
  1.50) and 201.50 that share one receipt, and a pending one; two charges; a receipt host
  and a Drive that accept everything; a sheet service without faults.\<close>

definition exPages :: "nat \<Rightarrow> payout page" where
  "exPages i =
     (if i = 0 then \<lparr>page_data = [exPayouts ! 0], has_more = True\<rparr>
      else \<lparr>page_data = [exPayouts ! 1, exPayouts ! 2], has_more = False\<rparr>)"

definition exFee :: fee where
  "exFee = \<lparr>fee_amount = Some 150, fee_type = Text ''stripe_fee'',
             fee_description = Text ''Stripe processing fees''\<rparr>"

definition exTxs :: "transaction list" where
  "exTxs =
     [\<lparr>tx_id = ''txn_1'', status = ''available'', source = Some ''ch_1'', tx_amount = Some 30000,
       reporting_category = Text ''charge'', tx_description = Text ''Membership'', tx_type = Text ''charge'',
       created = 1709000000, fee_details = [exFee], customer_name = None, receipt_url = None\<rparr>,
      \<lparr>tx_id = ''txn_2'', status = ''available'', source = Some ''ch_2'', tx_amount = Some 20150,
       reporting_category = Text ''charge'', tx_description = Null, tx_type = Text ''charge'',
       created = 1709003600, fee_details = [], customer_name = None, receipt_url = None\<rparr>,
      \<lparr>tx_id = ''txn_3'', status = ''pending'', source = Some ''ch_3'', tx_amount = Some 999,
       reporting_category = Text ''charge'', tx_description = Null, tx_type = Text ''charge'',
       created = 1709007200, fee_details = [exFee], customer_name = None, receipt_url = None\<rparr>]"


definition exCharges :: "string \<Rightarrow> charge response" where
  "exCharges chargeId =
     (if chargeId = ''ch_1''
        then Ok200 \<lparr>charge_receipt_url = Some ''https://pay.example/r1'', charge_customer_name = Some ''Ada''\<rparr>
      else if chargeId = ''ch_2''
        then Ok200 \<lparr>charge_receipt_url = Some ''https://pay.example/r1'', charge_customer_name = None\<rparr>
      else Status ''no such charge'')"

definition exBalance :: "transaction list \<Rightarrow> url \<Rightarrow> transaction page response" where
  "exBalance ts u =
     (if u = BalanceTransactionsUrl ''po_2'' None then Ok200 \<lparr>page_data = ts, has_more = False\<rparr>
      else Status ''no such payout'')"

definition exEnv :: "transaction list \<Rightarrow> env" where
  "exEnv ts =
     \<lparr>hostFns = pacificHost, props = exProperties,
      listPayouts = (\<lambda>i u. Ok200 (exPages i)),
      listBalanceTransactions = exBalance ts,
      getCharge = exCharges,
      getReceipt = (\<lambda>u. Ok200 \<lparr>contentType = Some ''text/html; charset=utf-8'', content = ''<html></html>''\<rparr>),
      driveSave = (\<lambda>r t. Inr (''https://drive.example/f1'', ''f1'')),
      sheetFault = (\<lambda>op. False)\<rparr>"

definition exHeaders :: row where
  "exHeaders = [Str ''Date'', Str ''Description'', Str ''Amount'', Str ''ReceiptURL'', Str ''Institution'',
                Str ''Account #'', Str ''Account ID'', Str ''Category'', Str ''Transaction ID'']"

definition exGrid :: "row list" where
  "exGrid =
     [exHeaders,
      [DateV 1709280000000, Str ''Orig Co Name:stripe Orig ID:x8598 payout'', Num 500, Str [],
       Str ''Bank'', Str ''1234'', Str ''acct'', Str ''Income'', Str ''t-1''],
      [DateV 1709366400000, Str ''Coffee'', Num (- 4), Str [],
       Str ''Bank'', Str ''1234'', Str ''acct'', Str ''Food'', Str ''t-2'']]"

definition exWorld :: world where
  "exWorld = \<lparr>sheetPresent = True, grid = exGrid, drive = [], requests = [], urlsAccessed = [],
               filesAdded = [], rowsModified = [], emails = [], alerts = []\<rparr>"

text \<open>The column positions that the two variants find in the example header row.\<close>

definition exSimpleColumns :: columnIndices where
  "exSimpleColumns =
     \<lparr>date_col = 1, description_col = 2, amount_col = 3, receiptUrl_col = 4,
      institution_col = None, accountNumber_col = None, accountId_col = None,
      category_col = None, transactionId_col = None\<rparr>"


text \<open>The example transactions after the charges are attached, and the receipt URLs
  collected from them.\<close>

definition exResolved :: "transaction list" where
  "exResolved = txs (resolveDetails (exEnv exTxs) (exPayouts ! 1) exTxs exWorld)"

definition exReceiptUrls :: "string list" where
  "exReceiptUrls = [''https://pay.example/r1'', ''https://pay.example/r1'']"

text \<open>The same environment with a sheet service that throws when the Amount of row 2 is
  set to zero, and one that throws on the write of the inserted rows.\<close>

definition exZeroFaultEnv :: "transaction list \<Rightarrow> env" where
  "exZeroFaultEnv ts = (exEnv ts)\<lparr>sheetFault := (\<lambda>op. op = SetValue 2 3 (Num 0))\<rparr>"

definition exWriteFaultEnv :: "transaction list \<Rightarrow> env" where
  "exWriteFaultEnv ts =
     (exEnv ts)\<lparr>sheetFault := (\<lambda>op. case op of SetValues r c vals \<Rightarrow> r = 3 | _ \<Rightarrow> False)\<rparr>"




section \<open>Properties\<close>

subsection \<open>Array search\<close>




subsection \<open>Payout Matcher\<close>




subsection \<open>The matching phase\<close>








subsection \<open>Configuration manager\<close>

lemma permittedScopes_literals:
  "permittedScopes ''script'' = [''user'', ''document'', ''script'']"
  "permittedScopes ''document'' = [''user'', ''document'']"
  "permittedScopes ''user'' = [''user'']"
  by (simp_all add: permittedScopes_def toLowerCase_def toLowerChar_def)

lemma readScopes_literals:
  "readScopes ''script'' = [''script'', ''document'', ''user'']"
  "readScopes ''document'' = [''document'', ''user'']"
  "readScopes ''user'' = [''user'']"
  by (simp_all add: readScopes_def toLowerCase_def toLowerChar_def)

lemma find_allowed:
  "js_find (\<lambda>prop. key prop = name) ALLOWED_PROPERTIES =
     (if name = ''STRIPE_API_KEY'' then Some \<lparr>key = ''STRIPE_API_KEY'', required = True, scope = ''script''\<rparr>
      else if name = ''RECEIPTS_FOLDER_URL'' then Some \<lparr>key = ''RECEIPTS_FOLDER_URL'', required = True, scope = ''document''\<rparr>
      else if name = ''STRIPE_PAYOUT_DESCRIPTION_PREFIX'' then Some \<lparr>key = ''STRIPE_PAYOUT_DESCRIPTION_PREFIX'', required = True, scope = ''user''\<rparr>
      else if name = ''SUMMARY_EMAIL'' then Some \<lparr>key = ''SUMMARY_EMAIL'', required = True, scope = ''document''\<rparr>
      else if name = ''STRIPE_INSTITUTION_NAME'' then Some \<lparr>key = ''STRIPE_INSTITUTION_NAME'', required = False, scope = ''user''\<rparr>
      else if name = ''STRIPE_PAYOUT_CATEGORY_LABEL'' then Some \<lparr>key = ''STRIPE_PAYOUT_CATEGORY_LABEL'', required = False, scope = ''document''\<rparr>
      else if name = ''STRIPE_FEE_CATEGORY_LABEL'' then Some \<lparr>key = ''STRIPE_FEE_CATEGORY_LABEL'', required = False, scope = ''document''\<rparr>
      else None)"
  by (simp add: ALLOWED_PROPERTIES_def)

lemma checkScopes_script:
  "checkScopes ps name [''script'', ''document'', ''user''] [''script'', ''document'', ''user''] =
     (case scriptProperties ps name of Some v \<Rightarrow> Some v
      | None \<Rightarrow> (case documentProperties ps name of Some v \<Rightarrow> Some v | None \<Rightarrow> userProperties ps name))"
  by (simp add: storeValue_def split: option.splits)

lemma checkScopes_document:
  "checkScopes ps name [''document'', ''user''] [''script'', ''document'', ''user''] =
     (case documentProperties ps name of Some v \<Rightarrow> Some v | None \<Rightarrow> userProperties ps name)"
  by (simp add: storeValue_def split: option.splits)

lemma checkScopes_user:
  "checkScopes ps name [''user''] [''script'', ''document'', ''user''] = userProperties ps name"
  by (simp add: storeValue_def split: option.splits)

lemma setProperty_rejects:
  "setProperty ps name v sc = Inr ps' \<Longrightarrow>
     (name = ''STRIPE_API_KEY'' \<and> toLowerCase sc \<in> {''user'', ''document'', ''script''})
   \<or> (name \<in> {''RECEIPTS_FOLDER_URL'', ''SUMMARY_EMAIL'', ''STRIPE_PAYOUT_CATEGORY_LABEL'',
                ''STRIPE_FEE_CATEGORY_LABEL''} \<and> toLowerCase sc \<in> {''user'', ''document''})
   \<or> (name \<in> {''STRIPE_PAYOUT_DESCRIPTION_PREFIX'', ''STRIPE_INSTITUTION_NAME''} \<and> toLowerCase sc = ''user'')"
  unfolding setProperty_def find_allowed
  by (simp add: permittedScopes_literals Let_def split: if_splits)


text \<open>
  Claim C9, as stated: a read resolves from the narrowest scope outward to the process-wide
  (script) scope, the narrowest scope that holds a value winning. It fails on the code. For
  \<open>RECEIPTS_FOLDER_URL\<close>, declared with scope \<open>document\<close>, with the value \<open>doc-folder\<close> in
  the document store and \<open>user-folder\<close> in the user store, the read returns the document
  value and not the value of the narrower user scope; and \<open>SUMMARY_EMAIL\<close>, declared with
  scope \<open>document\<close> and held by the script store only, reads as \<open>null\<close>: the search never
  reaches the process-wide scope.
\<close>

theorem getProperty_narrowest_counterexample:
  "getProperty exProperties ''RECEIPTS_FOLDER_URL'' = Some ''doc-folder''
   \<and> userProperties exProperties ''RECEIPTS_FOLDER_URL'' = Some ''user-folder''
   \<and> getProperty exProperties ''SUMMARY_EMAIL'' = None
   \<and> scriptProperties exProperties ''SUMMARY_EMAIL'' = Some ''script@example.org''"
  unfolding getProperty_def find_allowed
  by (simp add: readScopes_literals checkScopes_document exProperties_def del: checkScopes.simps)

text \<open>
  Claim C9, amended. A property that is not on the allow-list reads as \<open>null\<close>. A property
  on the allow-list is read from the scopes its declared scope allows, always in the order
  script, document, user, the first store that holds a value winning: \<open>STRIPE_API_KEY\<close>
  (declared \<open>script\<close>) from script, then document, then user; the properties declared
  \<open>document\<close> from document, then user; the properties declared \<open>user\<close> from user only.
  A write succeeds only for an allow-listed property and a scope (compared in lower case)
  inside its permitted set: user, document or script for a property declared \<open>script\<close>;
  user or document for one declared \<open>document\<close>; user for one declared \<open>user\<close>. Every
  other write is rejected with an error.
\<close>

theorem configManager_scopes:
  "getProperty ps name =
     (if name = ''STRIPE_API_KEY'' then
        (case scriptProperties ps name of Some v \<Rightarrow> Some v
         | None \<Rightarrow> (case documentProperties ps name of Some v \<Rightarrow> Some v | None \<Rightarrow> userProperties ps name))
      else if name \<in> {''RECEIPTS_FOLDER_URL'', ''SUMMARY_EMAIL'', ''STRIPE_PAYOUT_CATEGORY_LABEL'',
                       ''STRIPE_FEE_CATEGORY_LABEL''} then
        (case documentProperties ps name of Some v \<Rightarrow> Some v | None \<Rightarrow> userProperties ps name)
      else if name \<in> {''STRIPE_PAYOUT_DESCRIPTION_PREFIX'', ''STRIPE_INSTITUTION_NAME''} then
        userProperties ps name
      else None)
   \<and> ((\<exists>e. setProperty ps name v sc = Inl e)
       \<or> (name = ''STRIPE_API_KEY'' \<and> toLowerCase sc \<in> {''user'', ''document'', ''script''})
       \<or> (name \<in> {''RECEIPTS_FOLDER_URL'', ''SUMMARY_EMAIL'', ''STRIPE_PAYOUT_CATEGORY_LABEL'',
                    ''STRIPE_FEE_CATEGORY_LABEL''} \<and> toLowerCase sc \<in> {''user'', ''document''})
       \<or> (name \<in> {''STRIPE_PAYOUT_DESCRIPTION_PREFIX'', ''STRIPE_INSTITUTION_NAME''}
           \<and> toLowerCase sc = ''user''))"
proof
  show "getProperty ps name =
     (if name = ''STRIPE_API_KEY'' then
        (case scriptProperties ps name of Some v \<Rightarrow> Some v
         | None \<Rightarrow> (case documentProperties ps name of Some v \<Rightarrow> Some v | None \<Rightarrow> userProperties ps name))
      else if name \<in> {''RECEIPTS_FOLDER_URL'', ''SUMMARY_EMAIL'', ''STRIPE_PAYOUT_CATEGORY_LABEL'',
                       ''STRIPE_FEE_CATEGORY_LABEL''} then
        (case documentProperties ps name of Some v \<Rightarrow> Some v | None \<Rightarrow> userProperties ps name)
      else if name \<in> {''STRIPE_PAYOUT_DESCRIPTION_PREFIX'', ''STRIPE_INSTITUTION_NAME''} then
        userProperties ps name
      else None)"
    unfolding getProperty_def find_allowed
    by (simp add: readScopes_literals checkScopes_script checkScopes_document checkScopes_user
        del: checkScopes.simps cong: option.case_cong)
next
  show "(\<exists>e. setProperty ps name v sc = Inl e)
       \<or> (name = ''STRIPE_API_KEY'' \<and> toLowerCase sc \<in> {''user'', ''document'', ''script''})
       \<or> (name \<in> {''RECEIPTS_FOLDER_URL'', ''SUMMARY_EMAIL'', ''STRIPE_PAYOUT_CATEGORY_LABEL'',
                    ''STRIPE_FEE_CATEGORY_LABEL''} \<and> toLowerCase sc \<in> {''user'', ''document''})
       \<or> (name \<in> {''STRIPE_PAYOUT_DESCRIPTION_PREFIX'', ''STRIPE_INSTITUTION_NAME''}
           \<and> toLowerCase sc = ''user'')"
  proof (cases "setProperty ps name v sc")
    case (Inl e)
    then show ?thesis by blast
  next
    case (Inr ps')
    from setProperty_rejects[OF Inr] show ?thesis by blast
  qed
qed

theorem configManager_scopes_witness:
  "getProperty exProperties ''STRIPE_API_KEY'' = Some ''sk_script''
   \<and> getProperty exProperties ''NOT_LISTED'' = None
   \<and> (\<exists>e. setProperty exProperties ''STRIPE_PAYOUT_DESCRIPTION_PREFIX'' ''x'' ''Document'' = Inl e)"
proof -
  have l: "toLowerCase ''Document'' = ''document''"
    by code_simp
  from configManager_scopes[of exProperties "''STRIPE_API_KEY''" "''x''" "''user''"]
  have 1: "getProperty exProperties ''STRIPE_API_KEY'' = Some ''sk_script''"
    by (simp add: exProperties_def)
  from configManager_scopes[of exProperties "''NOT_LISTED''" "''x''" "''user''"]
  have 2: "getProperty exProperties ''NOT_LISTED'' = None"
    by simp
  from configManager_scopes[of exProperties "''STRIPE_PAYOUT_DESCRIPTION_PREFIX''" "''x''" "''Document''"]
  have 3: "\<exists>e. setProperty exProperties ''STRIPE_PAYOUT_DESCRIPTION_PREFIX'' ''x'' ''Document'' = Inl e"
    by (simp add: l)
  from 1 2 3 show ?thesis by blast
qed

subsection \<open>Payout Source Client\<close>

lemma fetchPayoutPages_pages:
  assumes ok: "\<forall>i\<le>k. listPayouts e i (requestUrl pg gte lte i) = Ok200 (pg i)"
    and more: "\<forall>i<k. has_more (pg i) \<and> page_data (pg i) \<noteq> []"
    and last: "\<not> has_more (pg k)"
  shows "j \<le> k \<Longrightarrow>
     fetchPayoutPages e gte lte j (requestUrl pg gte lte j) acc w =
       Some (Inr (acc @ concat (map (\<lambda>i. page_data (pg i)) [j..<Suc k])),
             w\<lparr>requests := requests w @ map (requestUrl pg gte lte) [j..<Suc k],
               urlsAccessed := urlsAccessed w @ map (requestUrl pg gte lte) [Suc j..<Suc k]\<rparr>)"
proof (induction "k - j" arbitrary: j acc w)
  case 0
  then have jk: "j = k" by simp
  have r: "listPayouts e k (requestUrl pg gte lte k) = Ok200 (pg k)" using ok by simp
  show ?case
    unfolding jk by (subst fetchPayoutPages.simps) (simp add: r last)
next
  case (Suc n)
  then have lt: "j < k" by simp
  have r: "listPayouts e j (requestUrl pg gte lte j) = Ok200 (pg j)" using ok lt by simp
  have m: "has_more (pg j)" "page_data (pg j) \<noteq> []" using more lt by auto
  have n: "n = k - Suc j" using Suc.hyps by simp
  have le: "Suc j \<le> k" using lt by simp
  have u: "[j..<Suc k] = j # [Suc j..<Suc k]" using lt by (simp add: upt_conv_Cons)
  have u2: "[Suc j..<Suc k] = Suc j # [Suc (Suc j)..<Suc k]" using le by (simp add: upt_conv_Cons)
  let ?w1 = "w\<lparr>requests := requests w @ [requestUrl pg gte lte j],
                 urlsAccessed := urlsAccessed w @ [requestUrl pg gte lte (Suc j)]\<rparr>"
  have "fetchPayoutPages e gte lte j (requestUrl pg gte lte j) acc w
          = fetchPayoutPages e gte lte (Suc j) (requestUrl pg gte lte (Suc j)) (acc @ page_data (pg j)) ?w1"
    by (subst fetchPayoutPages.simps) (simp add: r m)
  also have "\<dots> = Some (Inr ((acc @ page_data (pg j)) @ concat (map (\<lambda>i. page_data (pg i)) [Suc j..<Suc k])),
             ?w1\<lparr>requests := requests ?w1 @ map (requestUrl pg gte lte) [Suc j..<Suc k],
               urlsAccessed := urlsAccessed ?w1 @ map (requestUrl pg gte lte) [Suc (Suc j)..<Suc k]\<rparr>)"
    by (rule Suc.hyps(1)[OF n le])
  also have "\<dots> = Some (Inr (acc @ concat (map (\<lambda>i. page_data (pg i)) [j..<Suc k])),
             w\<lparr>requests := requests w @ map (requestUrl pg gte lte) [j..<Suc k],
               urlsAccessed := urlsAccessed w @ map (requestUrl pg gte lte) [Suc j..<Suc k]\<rparr>)"
    unfolding u by (subst (3) u2) (simp del: upt_Suc requestUrl.simps)
  finally show ?case .
qed


text \<open>
  Claim C5. Let a credential be configured and let the source answer the first \<open>k + 1\<close>
  listing requests of \<open>fetchStripePayouts\<close> with status 200 and the pages
  \<open>pg 0, \<dots>, pg k\<close>, the first \<open>k\<close> of them reporting \<open>has_more\<close> (each with a last record,
  whose id is the next cursor) and page \<open>k\<close> not. Then \<open>fetchStripePayouts\<close> returns; it
  has issued exactly the \<open>k + 1\<close> requests \<open>requestUrl pg \<dots> 0, \<dots>, requestUrl pg \<dots> k\<close>, the
  first without a cursor and each later one with \<open>starting_after\<close> the id of the last
  record of the page before; and its result is the records of the \<open>k + 1\<close> pages
  concatenated in page order.
\<close>

theorem fetchStripePayouts_pagination:
  assumes key: "\<not> falsy apiKey"
    and ok: "\<forall>i\<le>k. listPayouts e i (requestUrl pg (timestampOf startDate) (timestampOf endDate) i) = Ok200 (pg i)"
    and more: "\<forall>i<k. has_more (pg i) \<and> page_data (pg i) \<noteq> []"
    and last: "\<not> has_more (pg k)"
  shows "fetchStripePayouts e apiKey startDate endDate w =
       Some (Inr (concat (map (\<lambda>i. page_data (pg i)) [0..<Suc k])),
             w\<lparr>requests := requests w
                  @ map (requestUrl pg (timestampOf startDate) (timestampOf endDate)) [0..<Suc k],
               urlsAccessed := urlsAccessed w
                  @ map (requestUrl pg (timestampOf startDate) (timestampOf endDate)) [0..<Suc k]\<rparr>)"
proof -
  have z: "[0..<Suc k] = 0 # [Suc 0..<Suc k]" by (simp add: upt_conv_Cons del: upt_Suc)
  show ?thesis
    unfolding fetchStripePayouts_def
    using fetchPayoutPages_pages[OF ok more last, of 0 "[]"
        "w\<lparr>urlsAccessed := urlsAccessed w @ [PayoutsUrl None (timestampOf startDate) (timestampOf endDate)]\<rparr>"]
      key
    by (simp add: z del: upt_Suc)
qed


theorem fetchStripePayouts_pagination_witness:
  "fetchStripePayouts (exEnv exTxs) (Some ''sk_script'') None None exWorld =
     Some (Inr exPayouts,
           exWorld\<lparr>requests := [PayoutsUrl None None None, PayoutsUrl (Some ''po_1'') None None],
                   urlsAccessed := [PayoutsUrl None None None, PayoutsUrl (Some ''po_1'') None None]\<rparr>)"
proof -
  have k: "\<not> falsy (Some ''sk_script'')" by (simp add: falsy_def)
  have ok: "\<forall>i\<le>1. listPayouts (exEnv exTxs) i
                     (requestUrl exPages (timestampOf None) (timestampOf None) i) = Ok200 (exPages i)"
    by (simp add: exEnv_def)
  have more: "\<forall>i<1. has_more (exPages i) \<and> page_data (exPages i) \<noteq> []"
    by (simp add: exPages_def)
  have last: "\<not> has_more (exPages 1)" by (simp add: exPages_def)
  have c: "concat (map (\<lambda>i. page_data (exPages i)) [0..<Suc 1]) = exPayouts"
    by (simp add: exPages_def exPayouts_def)
  have u: "map (requestUrl exPages (timestampOf None) (timestampOf None)) [0..<Suc 1]
             = [PayoutsUrl None None None, PayoutsUrl (Some ''po_1'') None None]"
    by (simp add: exPages_def exPayouts_def timestampOf_def)
  show ?thesis
    using fetchStripePayouts_pagination[OF k ok more last, where w = exWorld]
    unfolding c u by (simp add: exWorld_def)
qed

subsection \<open>Decomposition Engine: fee rows\<close>

lemma cellAt_arraySet_same: "cellAt (arraySet xs i v) i = v"
  by (simp add: cellAt_def arraySet_def nth_append)

lemma cellAt_arraySet_other: "i \<noteq> j \<Longrightarrow> cellAt (arraySet xs i v) j = cellAt xs j"
  by (auto simp: cellAt_def arraySet_def nth_append)

lemma cellAt_arraySetOpt_other: "i \<noteq> Some j \<Longrightarrow> cellAt (arraySetOpt xs i v) j = cellAt xs j"
  by (cases i) (auto simp: arraySetOpt_def cellAt_arraySet_other)















subsection \<open>Receipt Resolver\<close>

lemma uniqueValues_fold:
  "distinct acc \<Longrightarrow>
     distinct (foldl (\<lambda>acc x. if x \<in> set acc then acc else acc @ [x]) acc xs)
     \<and> set (foldl (\<lambda>acc x. if x \<in> set acc then acc else acc @ [x]) acc xs) = set acc \<union> set xs"
  by (induction xs arbitrary: acc) auto

lemma distinct_uniqueValues: "distinct (uniqueValues xs)"
  using uniqueValues_fold[of "[]" xs] by (simp add: uniqueValues_def)

lemma set_uniqueValues: "set (uniqueValues xs) = set xs"
  using uniqueValues_fold[of "[]" xs] by (simp add: uniqueValues_def)

lemma count_distinct: "distinct xs \<Longrightarrow> u \<in> set xs \<Longrightarrow> count_list xs u = 1"
  by (induction xs) auto

lemma count_uniqueValues: "u \<in> set xs \<Longrightarrow> count_list (uniqueValues xs) u = 1"
  using distinct_uniqueValues[of xs] set_uniqueValues[of xs] by (simp add: count_distinct)

lemma saveReceipts_ok:
  "saveReceipts e ts us m fc w = (Inr m', fc', w') \<Longrightarrow>
     (\<forall>u. m' u = (if u \<in> set us \<and> getReceipt e u \<noteq> FetchThrows \<and> (\<forall>b. getReceipt e u \<noteq> Status b)
                   then map_option fst (savedAs e ts u) else m u))
     \<and> (\<forall>u\<in>set us. \<forall>rc. getReceipt e u = Ok200 rc \<longrightarrow> savedAs e ts u \<noteq> None)
     \<and> drive w' = drive w @ List.map_filter (\<lambda>u. map_option snd (savedAs e ts u)) us
     \<and> requests w' = requests w"
proof (induction us arbitrary: m fc w)
  case Nil
  then show ?case by (simp add: List.map_filter_simps)
next
  case (Cons u us)
  show ?case
  proof (cases "getReceipt e u")
    case FetchThrows
    then have s: "savedAs e ts u = None" by (simp add: savedAs_def)
    from Cons.prems FetchThrows have "saveReceipts e ts us m fc w = (Inr m', fc', w')" by simp
    from Cons.IH[OF this] FetchThrows s show ?thesis
      by (auto simp: List.map_filter_simps)
  next
    case (Status b)
    then have s: "savedAs e ts u = None" by (simp add: savedAs_def)
    from Cons.prems Status have "saveReceipts e ts us m fc w = (Inr m', fc', w')" by simp
    from Cons.IH[OF this] Status s show ?thesis
      by (auto simp: List.map_filter_simps)
  next
    case (Ok200 rc)
    from Cons.prems Ok200 obtain tx r where
      tx: "js_find (\<lambda>tx. receipt_url tx = Some u) ts = Some tx"
      and r: "driveSave e rc tx = Inr r"
      and rest: "saveReceipts e ts us (m(u \<mapsto> fst r))
                   (if snd r \<noteq> [] then fc @ [snd r] else fc)
                   (w\<lparr>drive := drive w @ [snd r], filesAdded := filesAdded w @ [(tx_id tx, fst r)]\<rparr>)
                 = (Inr m', fc', w')"
      by (auto split: if_splits option.splits sum.splits)
    have s: "savedAs e ts u = Some r" using Ok200 tx r by (simp add: savedAs_def)
    from Cons.IH[OF rest] Ok200 s show ?thesis
      by (auto simp: List.map_filter_simps)
  qed
qed


lemma receipt_createTransactionRow:
  "cellAt (createTransactionRow h base t ci od a u) (receiptUrl_col ci) = Str (orDefault u [])"
  by (simp add: createTransactionRow_def Let_def cellAt_arraySet_same)

lemma receipt_createFeeRow:
  "cellAt (createFeeRow h base f t ci od a u) (receiptUrl_col ci) = Str (orDefault u [])"
  by (simp add: createFeeRow_def Let_def cellAt_arraySet_same)

lemma receipt_tt_createTransactionRow:
  assumes "institution_col ci \<noteq> Some (receiptUrl_col ci)" "accountNumber_col ci \<noteq> Some (receiptUrl_col ci)"
    "accountId_col ci \<noteq> Some (receiptUrl_col ci)" "category_col ci \<noteq> Some (receiptUrl_col ci)"
  shows "cellAt (tt_createTransactionRow h lb base t ci od a u cat acct) (receiptUrl_col ci)
           = Str (orDefault u [])"
  using assms
  by (simp add: tt_createTransactionRow_def Let_def cellAt_arraySet_same cellAt_arraySetOpt_other)

lemma receipt_tt_createFeeRow:
  assumes "institution_col ci \<noteq> Some (receiptUrl_col ci)" "accountNumber_col ci \<noteq> Some (receiptUrl_col ci)"
    "accountId_col ci \<noteq> Some (receiptUrl_col ci)" "category_col ci \<noteq> Some (receiptUrl_col ci)"
    "transactionId_col ci \<noteq> Some (receiptUrl_col ci)"
  shows "cellAt (tt_createFeeRow h lb base f t ci od a u cat acct) (receiptUrl_col ci)
           = Str (orDefault u [])"
  using assms
  by (simp add: tt_createFeeRow_def Let_def cellAt_arraySet_same cellAt_arraySetOpt_other)

lemma receiptDriveUrlOf_shared:
  "receipt_url t = Some u \<Longrightarrow> u \<noteq> [] \<Longrightarrow> m u = Some fileUrl \<Longrightarrow>
     orDefault (receiptDriveUrlOf m t) [] = fileUrl"
  by (simp add: receiptDriveUrlOf_def truthyOpt_def falsy_def orDefault_def)


text \<open>
  Claim C7. Let \<open>fetchAndSaveReceipts\<close> return without an exception on the list of receipt
  URLs collected for a payout, and let \<open>u\<close> be a URL of the list whose fetch answers 200.
  The URLs are deduplicated before fetching: the requests issued are one per distinct URL,
  in the order of first occurrence, so \<open>u\<close> is fetched exactly once; Drive gains one file
  per distinct URL that was fetched and saved, so exactly one for \<open>u\<close>; the returned map
  sends \<open>u\<close> to that file's URL; and every row (transaction row and fee rows, in both
  variants) derived from any available transaction whose receipt URL is \<open>u\<close> carries that
  one Drive URL in its receipt column.
\<close>

theorem receipts_deduplicated:
  assumes run: "fetchAndSaveReceipts e receiptUrls ts fc0 w = (Inr m, fc, w')"
    and u: "u \<in> set receiptUrls" "u \<noteq> []"
    and ok: "getReceipt e u = Ok200 rc"
  shows "requests w' = requests w @ map ReceiptUrl (uniqueValues receiptUrls)
       \<and> count_list (uniqueValues receiptUrls) u = 1
       \<and> drive w' = drive w
            @ List.map_filter (\<lambda>v. map_option snd (savedAs e ts v)) (uniqueValues receiptUrls)
       \<and> (\<exists>fileUrl fileId. savedAs e ts u = Some (fileUrl, fileId) \<and> m u = Some fileUrl
            \<and> (\<forall>t. isAvailable t \<and> receipt_url t = Some u \<longrightarrow>
                  (\<forall>r\<in>set (transactionRows h base ci od m t). cellAt r (receiptUrl_col ci) = Str fileUrl)
                \<and> (Some (receiptUrl_col ci) \<notin> {institution_col ci, accountNumber_col ci, accountId_col ci,
                                                 category_col ci, transactionId_col ci} \<longrightarrow>
                     (\<forall>r\<in>set (tt_transactionRows h lb p base ci od m t).
                         cellAt r (receiptUrl_col ci) = Str fileUrl))))"
proof -
  let ?us = "uniqueValues receiptUrls"
  let ?w1 = "w\<lparr>requests := requests w @ map ReceiptUrl ?us,
                urlsAccessed := urlsAccessed w @ map ReceiptUrl ?us\<rparr>"
  from run have sv: "saveReceipts e ts ?us Map.empty fc0 ?w1 = (Inr m, fc, w')"
    by (simp add: fetchAndSaveReceipts_def Let_def split: if_splits)
  note k = saveReceipts_ok[OF sv]
  have uin: "u \<in> set ?us" using u(1) by (simp add: set_uniqueValues)
  from k uin ok have sn: "savedAs e ts u \<noteq> None" by blast
  then obtain fileUrl fileId where s: "savedAs e ts u = Some (fileUrl, fileId)" by auto
  from k uin ok s have mu: "m u = Some fileUrl" by simp
  have rows: "(\<forall>r\<in>set (transactionRows h base ci od m t). cellAt r (receiptUrl_col ci) = Str fileUrl)
                \<and> (Some (receiptUrl_col ci) \<notin> {institution_col ci, accountNumber_col ci, accountId_col ci,
                                                 category_col ci, transactionId_col ci} \<longrightarrow>
                     (\<forall>r\<in>set (tt_transactionRows h lb p base ci od m t).
                         cellAt r (receiptUrl_col ci) = Str fileUrl))"
    if t: "isAvailable t \<and> receipt_url t = Some u" for t
  proof -
    have o: "orDefault (receiptDriveUrlOf m t) [] = fileUrl"
      using t u(2) mu by (simp add: receiptDriveUrlOf_shared)
    have 1: "\<forall>r\<in>set (transactionRows h base ci od m t). cellAt r (receiptUrl_col ci) = Str fileUrl"
      using t o by (auto simp: transactionRows_def receipt_createTransactionRow receipt_createFeeRow)
    have 2: "\<forall>r\<in>set (tt_transactionRows h lb p base ci od m t). cellAt r (receiptUrl_col ci) = Str fileUrl"
      if d: "Some (receiptUrl_col ci) \<notin> {institution_col ci, accountNumber_col ci, accountId_col ci,
                                          category_col ci, transactionId_col ci}"
    proof -
      have dd: "institution_col ci \<noteq> Some (receiptUrl_col ci)" "accountNumber_col ci \<noteq> Some (receiptUrl_col ci)"
        "accountId_col ci \<noteq> Some (receiptUrl_col ci)" "category_col ci \<noteq> Some (receiptUrl_col ci)"
        "transactionId_col ci \<noteq> Some (receiptUrl_col ci)"
        using d by auto
      show ?thesis
        using t o
        by (auto simp: tt_transactionRows_def receipt_tt_createTransactionRow[OF dd(1-4)]
            receipt_tt_createFeeRow[OF dd])
    qed
    from 1 2 show ?thesis by blast
  qed
  have rq: "requests w' = requests w @ map ReceiptUrl ?us" using k by simp
  have dr: "drive w' = drive w @ List.map_filter (\<lambda>v. map_option snd (savedAs e ts v)) ?us"
    using k by simp
  have cnt: "count_list ?us u = 1" using u(1) by (rule count_uniqueValues)
  from rq cnt dr s mu rows show ?thesis by blast
qed


theorem receipts_deduplicated_witness:
  "\<exists>m fc w'. fetchAndSaveReceipts (exEnv exTxs) (receiptUrlsOf exResolved) exResolved [] exWorld
                 = (Inr m, fc, w')
      \<and> receiptUrlsOf exResolved = [''https://pay.example/r1'', ''https://pay.example/r1'']
      \<and> requests w' = [ReceiptUrl ''https://pay.example/r1'']
      \<and> drive w' = [''f1'']
      \<and> m ''https://pay.example/r1'' = Some ''https://drive.example/f1''"
proof -
  have urls: "receiptUrlsOf exResolved = exReceiptUrls" by code_simp
  have "case fetchAndSaveReceipts (exEnv exTxs) exReceiptUrls exResolved [] exWorld of
          (Inl err, fc, w) \<Rightarrow> False | (Inr m, fc, w) \<Rightarrow> True"
    by code_simp
  then obtain m fc w' where
    run: "fetchAndSaveReceipts (exEnv exTxs) exReceiptUrls exResolved [] exWorld = (Inr m, fc, w')"
    by (auto split: prod.splits sum.splits)
  have u: "''https://pay.example/r1'' \<in> set exReceiptUrls" "''https://pay.example/r1'' \<noteq> []"
    by (simp_all add: exReceiptUrls_def)
  have ok: "getReceipt (exEnv exTxs) ''https://pay.example/r1''
              = Ok200 \<lparr>contentType = Some ''text/html; charset=utf-8'', content = ''<html></html>''\<rparr>"
    by (simp add: exEnv_def)
  have uq: "uniqueValues exReceiptUrls = [''https://pay.example/r1'']" by code_simp
  have sv: "List.map_filter (\<lambda>v. map_option snd (savedAs (exEnv exTxs) exResolved v))
              [''https://pay.example/r1''] = [''f1'']"
    by code_simp
  have sa: "savedAs (exEnv exTxs) exResolved ''https://pay.example/r1''
              = Some (''https://drive.example/f1'', ''f1'')"
    by code_simp
  note t = receipts_deduplicated[OF run u ok, of pacificHost "[]" exSimpleColumns "Str []"
      "stripeLabels exProperties" "exPayouts ! 1"]
  from t have rq: "requests w' = requests exWorld @ map ReceiptUrl (uniqueValues exReceiptUrls)"
    by (rule conjunct1)
  from t have dr: "drive w' = drive exWorld
            @ List.map_filter (\<lambda>v. map_option snd (savedAs (exEnv exTxs) exResolved v))
                (uniqueValues exReceiptUrls)"
    by (elim conjE)
  from t sa have mu: "m ''https://pay.example/r1'' = Some ''https://drive.example/f1''"
    by auto
  have 1: "requests w' = [ReceiptUrl ''https://pay.example/r1'']"
    using rq by (simp add: uq exWorld_def)
  have 2: "drive w' = [''f1'']" using dr unfolding uq sv by (simp add: exWorld_def)
  have run': "fetchAndSaveReceipts (exEnv exTxs) (receiptUrlsOf exResolved) exResolved [] exWorld
                = (Inr m, fc, w')"
    using run urls by simp
  have urls': "receiptUrlsOf exResolved = [''https://pay.example/r1'', ''https://pay.example/r1'']"
    using urls by (simp add: exReceiptUrls_def)
  show ?thesis
    by (intro exI[of _ m] exI[of _ fc] exI[of _ "w'"] conjI) (fact run' urls' 1 2 mu)+
qed

subsection \<open>Ledger Writer and Rollback Manager: the sheet operations\<close>

lemma getLastRow_le: "getLastRow g \<le> length g"
proof -
  have "length (dropWhile isBlankRow (rev g)) \<le> length (rev g)"
    by (rule length_dropWhile_le)
  then show ?thesis by (simp add: getLastRow_def)
qed

lemma blank_after_last: "list_all isBlankRow (drop (getLastRow g) g)"
proof -
  have "rev g = takeWhile isBlankRow (rev g) @ dropWhile isBlankRow (rev g)" by simp
  then have "g = rev (dropWhile isBlankRow (rev g)) @ rev (takeWhile isBlankRow (rev g))"
    by (metis rev_append rev_rev_ident)
  then have "drop (getLastRow g) g = rev (takeWhile isBlankRow (rev g))"
    by (metis append_eq_conv_conj getLastRow_def length_rev)
  moreover have "list_all isBlankRow (rev (takeWhile isBlankRow (rev g)))"
    by (simp add: list_all_iff) (meson set_takeWhileD)
  ultimately show ?thesis by simp
qed

lemma getValues_ok:
  "getValues g r n = Inr rows \<Longrightarrow>
     1 \<le> r \<and> 1 \<le> n \<and> r - 1 + nat n \<le> length g \<and> rows = take (nat n) (drop (r - 1) g)"
  by (auto simp: getValues_def split: if_splits)

lemma insertNewRows_ok:
  "insertNewRows e g i numColumns rows = (Inr u, g') \<Longrightarrow> g' = inserted g i rows"
  by (auto simp: insertNewRows_def sheetCall_def inserted_def split: if_splits sum.splits)

lemma insertNewRows_fail:
  "insertNewRows e g i numColumns rows = (Inl err, g') \<Longrightarrow>
     g' = g \<or> (rows \<noteq> [] \<and> 1 \<le> i \<and> i \<le> length g
               \<and> g' = take i g @ replicate (length rows) (blankRow g) @ drop i g)"
  by (auto simp: insertNewRows_def sheetCall_def split: if_splits sum.splits)


lemma commitRows_fail:
  assumes "commitRows e g i numColumns c rows = (Inl err, g')"
  shows "partlyWritten g i (length rows) g'"
proof (cases "insertNewRows e g i numColumns rows")
  case (Pair res g1)
  show ?thesis
  proof (cases res)
    case (Inl err1)
    with Pair assms have "g' = g1" by (simp add: commitRows_def)
    with insertNewRows_fail[of e g i numColumns rows err1 g1] Pair Inl
    show ?thesis by (auto simp: partlyWritten_def)
  next
    case (Inr u)
    with Pair assms have g': "g' = g1"
      by (auto simp: commitRows_def split: sum.splits)
    from Pair Inr have g1: "g1 = inserted g i rows" by (auto dest: insertNewRows_ok)
    show ?thesis
    proof (cases "rows = []")
      case True
      with g1 g' show ?thesis by (simp add: partlyWritten_def inserted_def)
    next
      case False
      from Pair Inr False have "1 \<le> i \<and> i \<le> length g"
        by (auto simp: insertNewRows_def sheetCall_def split: if_splits sum.splits)
      with g1 g' False show ?thesis by (auto simp: partlyWritten_def inserted_def)
    qed
  qed
qed

lemma tt_commitRows_fail:
  assumes "tt_commitRows e g i numColumns rows = (Inl err, g')"
  shows "partlyWritten g i (length rows) g'"
  using insertNewRows_fail[of e g i numColumns rows err g'] assms
  by (auto simp: tt_commitRows_def partlyWritten_def)

lemma rollback_after_delete:
  assumes ne: "originalData \<noteq> []"
    and w: "list_all (\<lambda>r. length r = length (hd originalData)) originalData" "hd originalData \<noteq> []"
    and nf: "\<not> sheetFault e (SetValues i (length (hd originalData)) originalData)"
    and i: "1 \<le> i"
    and d: "(if 0 < n then sheetCall e g' (DeleteRows (i + 1) n) else Inr g') = Inr g1"
    and len: "i - 1 \<le> length g1"
  shows "rollbackChanges e g' i n originalData
           = (Inr (), take (i - 1) g1 @ originalData @ drop (i - 1 + length originalData) g1)"
proof -
  obtain first rest where fr: "originalData = first # rest" using ne by (cases originalData) auto
  have sv: "sheetCall e g1 (SetValues i (length first) originalData)
              = Inr (take (i - 1) g1 @ originalData @ drop (i - 1 + length originalData) g1)"
    using i w nf fr len by (simp add: sheetCall_def)
  show ?thesis
    unfolding rollbackChanges_def d using sv fr by (simp del: applyOp.simps)
qed

lemma rollback_restores:
  assumes i: "1 \<le> i" and l: "1 \<le> l" and b: "i - 1 + l \<le> length g"
    and orig: "originalData = take l (drop (i - 1) g)"
    and w: "list_all (\<lambda>r. length r = length (hd originalData)) originalData" "hd originalData \<noteq> []"
    and nf: "\<not> sheetFault e (DeleteRows (i + 1) n)"
            "\<not> sheetFault e (SetValues i (length (hd originalData)) originalData)"
    and pw: "partlyWritten g i n g'"
  shows "\<exists>k. snd (rollbackChanges e g' i n originalData) = take (i - 1 + l) g @ drop (i - 1 + l + k) g"
proof -
  have ne: "originalData \<noteq> []" using orig l b by auto
  have lo: "length originalData = l" using orig b by simp
  have pre: "take (i - 1) g @ originalData = take (i - 1 + l) g"
    unfolding orig by (simp add: take_add)
  note rb = rollback_after_delete[OF ne w nf(2) i]
  show ?thesis
  proof (cases "g' = g")
    case same: True
    show ?thesis
    proof (cases "0 < n")
      case False
      then have "(if 0 < n then sheetCall e g' (DeleteRows (i + 1) n) else Inr g') = Inr g"
        using same by simp
      from rb[OF this] b have "snd (rollbackChanges e g' i n originalData)
                   = take (i - 1) g @ originalData @ drop (i - 1 + l) g"
        by (simp add: lo)
      then have "snd (rollbackChanges e g' i n originalData) = take (i - 1 + l) g @ drop (i - 1 + l + 0) g"
        using pre by (simp flip: append_assoc)
      then show ?thesis by blast
    next
      case True
      show ?thesis
      proof (cases "length g < i + n")
        case True
        then have "sheetCall e g (DeleteRows (i + 1) n) = Inl RangeError"
          using nf by (simp add: sheetCall_def)
        then have "snd (rollbackChanges e g' i n originalData) = g"
          using same \<open>0 < n\<close> by (simp add: rollbackChanges_def)
        then have "snd (rollbackChanges e g' i n originalData) = take (i - 1 + l) g @ drop (i - 1 + l + 0) g"
          by simp
        then show ?thesis by blast
      next
        case False
        let ?g1 = "take i g @ drop (i + n) g"
        have d: "(if 0 < n then sheetCall e g' (DeleteRows (i + 1) n) else Inr g') = Inr ?g1"
          using False \<open>0 < n\<close> nf same by (simp add: sheetCall_def)
        have len: "i - 1 \<le> length ?g1" using False by simp
        have t1: "take (i - 1) ?g1 = take (i - 1) g" using False i by simp
        have d1: "drop (i - 1 + l) ?g1 = drop (i - 1 + l + n) g"
          using False i l b by (simp add: add.commute add.left_commute)
        from rb[OF d len] have "snd (rollbackChanges e g' i n originalData)
                = take (i - 1) g @ originalData @ drop (i - 1 + l + n) g"
          unfolding t1 lo d1 by simp
        then have "snd (rollbackChanges e g' i n originalData) = take (i - 1 + l) g @ drop (i - 1 + l + n) g"
          using pre by (simp flip: append_assoc)
        then show ?thesis by blast
      qed
    qed
  next
    case False
    with pw obtain block where n: "0 < n" and il: "i \<le> length g" and bl: "length block = n"
      and g': "g' = take i g @ block @ drop i g"
      by (auto simp: partlyWritten_def)
    have "applyOp g' (DeleteRows (i + 1) n) = Inr (take i g' @ drop (i + n) g')"
      using n g' il bl by simp
    moreover have "take i g' = take i g" using g' il by simp
    moreover have "drop (i + n) g' = drop i g" using g' il bl by simp
    ultimately have d: "(if 0 < n then sheetCall e g' (DeleteRows (i + 1) n) else Inr g') = Inr g"
      using nf n by (simp add: sheetCall_def)
    have len: "i - 1 \<le> length g" using il by simp
    from rb[OF d len] have "snd (rollbackChanges e g' i n originalData)
                = take (i - 1) g @ originalData @ drop (i - 1 + l) g"
      by (simp add: lo)
    then have "snd (rollbackChanges e g' i n originalData) = take (i - 1 + l) g @ drop (i - 1 + l + 0) g"
      using pre by (simp flip: append_assoc)
    then show ?thesis by blast
  qed
qed


subsection \<open>Ledger Writer and Rollback Manager: one payout\<close>

lemma deleteFiles_grid [simp]: "grid (deleteFiles fc w) = grid w"
  by (simp add: deleteFiles_def)

lemma fetchChargesInParallel_grid: "grid (snd (fetchChargesInParallel e ids w)) = grid w"
  by (simp add: fetchChargesInParallel_def Let_def)

lemma saveReceipts_grid: "grid (snd (snd (saveReceipts e ts us m fc w))) = grid w"
  by (induction us arbitrary: m fc w) (auto split: response.splits option.splits sum.splits)

lemma fetchAndSaveReceipts_grid: "grid (snd (snd (fetchAndSaveReceipts e urls ts fc w))) = grid w"
  by (simp add: fetchAndSaveReceipts_def Let_def saveReceipts_grid)

lemma resolveDetails_grid: "grid (after (resolveDetails e p ts w)) = grid w"
proof (cases "fetchChargesInParallel e (List.map_filter chargeSource (map (prepareSource p) ts)) w")
  case (Pair r w1)
  then have g1: "grid w1 = grid w"
    using fetchChargesInParallel_grid[of e "List.map_filter chargeSource (map (prepareSource p) ts)" w]
    by simp
  show ?thesis
  proof (cases r)
    case (Inl err)
    with Pair g1 show ?thesis by (simp add: resolveDetails_def Let_def)
  next
    case (Inr chargesMap)
    let ?ts2 = "map (attachCharge (transactionChargeMap (map (prepareSource p) ts)) chargesMap)
                  (map (prepareSource p) ts)"
    obtain res fc w2 where f: "fetchAndSaveReceipts e (receiptUrlsOf ?ts2) ?ts2 [] w1 = (res, fc, w2)"
      by (cases "fetchAndSaveReceipts e (receiptUrlsOf ?ts2) ?ts2 [] w1") auto
    then have "grid w2 = grid w1"
      using fetchAndSaveReceipts_grid[of e "receiptUrlsOf ?ts2" ?ts2 "[]" w1] by simp
    with Pair Inr f g1 show ?thesis by (simp add: resolveDetails_def Let_def)
  qed
qed

lemma resolveDetails_count: "newRowsCount (resolveDetails e p ts w) = 0"
  by (auto simp: resolveDetails_def Let_def split: prod.splits sum.splits)


lemma decompose_fail:
  assumes "outcome (decompose e payoutRow headers prd ci a) = Inl err"
  shows "partlyWritten (grid (after a)) (rowIndex payoutRow)
           (newRowsCount (decompose e payoutRow headers prd ci a))
           (grid (after (decompose e payoutRow headers prd ci a)))"
proof (cases "outcome a")
  case (Inl err)
  then show ?thesis by (simp add: decompose_def partlyWritten_def)
next
  case (Inr rfm)
  let ?rows = "newRowsData (hostFns e) prd (currentColumnIndices ci)
                 (cellAt prd (description_col ci - 1)) rfm (txs a)"
  let ?w1 = "(after a)\<lparr>rowsModified := rowsModified (after a)
                @ zip [rowIndex payoutRow + 1 ..< rowIndex payoutRow + 1 + length ?rows]
                      (rowLabels (txs a))\<rparr>"
  show ?thesis
  proof (cases "amountMismatch (hostFns e)
              (totalProcessedAmount ?rows (amount_col (currentColumnIndices ci))) (row_amount payoutRow)")
    case True
    with Inr show ?thesis by (simp add: decompose_def Let_def partlyWritten_def)
  next
    case False
    obtain res g where c: "commitRows e (grid ?w1) (rowIndex payoutRow) (length headers) (amount_col ci) ?rows
                           = (res, g)"
      by (cases "commitRows e (grid ?w1) (rowIndex payoutRow) (length headers) (amount_col ci) ?rows") auto
    with assms Inr False have r: "res = Inl err"
      and g: "grid (after (decompose e payoutRow headers prd ci a)) = g"
      and n: "newRowsCount (decompose e payoutRow headers prd ci a) = length ?rows"
      by (auto simp: decompose_def Let_def)
    from commitRows_fail[OF c[unfolded r]] g n show ?thesis by simp
  qed
qed


lemma tt_decompose_fail:
  assumes "outcome (tt_decompose e payoutRow p headers prd ci a) = Inl err"
  shows "partlyWritten (grid (after a)) (rowIndex payoutRow)
           (newRowsCount (tt_decompose e payoutRow p headers prd ci a))
           (grid (after (tt_decompose e payoutRow p headers prd ci a)))"
proof (cases "outcome a")
  case (Inl err)
  then show ?thesis by (simp add: tt_decompose_def partlyWritten_def)
next
  case (Inr rfm)
  let ?rows = "tt_newRowsData (hostFns e) (stripeLabels (props e)) p prd (currentColumnIndices ci)
                 (cellAt prd (description_col ci - 1)) rfm (txs a)"
  show ?thesis
  proof (cases "tt_amountMismatch (totalProcessedAmount ?rows (amount_col (currentColumnIndices ci)))")
    case True
    with Inr show ?thesis by (simp add: tt_decompose_def Let_def partlyWritten_def)
  next
    case False
    obtain res g where c: "tt_commitRows e (grid (after a)) (rowIndex payoutRow) (length headers) ?rows = (res, g)"
      by (cases "tt_commitRows e (grid (after a)) (rowIndex payoutRow) (length headers) ?rows") auto
    with assms Inr False have r: "res = Inl err"
      and g: "grid (after (tt_decompose e payoutRow p headers prd ci a)) = g"
      and n: "newRowsCount (tt_decompose e payoutRow p headers prd ci a) = length ?rows"
      by (auto simp: tt_decompose_def Let_def)
    from tt_commitRows_fail[OF c[unfolded r]] g n show ?thesis by simp
  qed
qed

lemma compensate_ok:
  "outcome d = Inr u \<Longrightarrow> compensate e i orig d = (Inr (), txs d, after d)"
  by (simp add: compensate_def)

lemma compensate_fail:
  assumes "outcome d = Inl err" and "compensate e i orig d = (res, ts', w')"
  shows "grid w' = snd (rollbackChanges e (grid (after d)) i (newRowsCount d) orig)
       \<and> drive w' = filter (\<lambda>f. f \<notin> set (filesCreated d)) (drive (after d))
       \<and> res = (case fst (rollbackChanges e (grid (after d)) i (newRowsCount d) orig) of
                  Inl rollbackError \<Rightarrow> Inl rollbackError
                | Inr v \<Rightarrow> Inl (TransactionProcessingFailed err))"
  using assms
  by (auto simp: compensate_def Let_def deleteFiles_def split: prod.splits sum.splits)

lemma getLastRow_take:
  assumes "list_all isBlankRow bs" and n: "n = getLastRow g"
  shows "getLastRow (take n g @ bs) = n"
proof -
  have r: "rev g = takeWhile isBlankRow (rev g) @ dropWhile isBlankRow (rev g)" by simp
  have "length (takeWhile isBlankRow (rev g)) + length (dropWhile isBlankRow (rev g)) = length g"
    by (metis length_append length_rev takeWhile_dropWhile_id)
  then have lt: "length (takeWhile isBlankRow (rev g)) = length g - n"
    by (simp add: getLastRow_def n)
  have "rev (take n g) = drop (length g - n) (rev g)"
    by (simp add: rev_take)
  also have "\<dots> = dropWhile isBlankRow (rev g)"
    using r lt by (metis append_eq_conv_conj)
  finally have t: "rev (take n g) = dropWhile isBlankRow (rev g)" .
  have "dropWhile isBlankRow (rev bs @ rev (take n g)) = dropWhile isBlankRow (rev (take n g))"
    using assms(1) by (intro dropWhile_append2) (simp add: list_all_iff)
  then have "getLastRow (take n g @ bs) = length (dropWhile isBlankRow (rev (take n g)))"
    by (simp add: getLastRow_def)
  also have "\<dots> = length (dropWhile isBlankRow (rev g))"
    unfolding t by (simp add: dropWhile_idem)
  also have "\<dots> = n" by (simp add: getLastRow_def n)
  finally show ?thesis .
qed

lemma dataRows_restored:
  assumes "g' = take (getLastRow g) g @ drop (getLastRow g + k) g"
  shows "dataRows g' = dataRows g \<and> getLastRow g' = getLastRow g"
proof -
  have "drop (getLastRow g + k) g = drop k (drop (getLastRow g) g)" by (simp add: add.commute)
  moreover have "set (drop k (drop (getLastRow g) g)) \<subseteq> set (drop (getLastRow g) g)"
    by (rule set_drop_subset)
  then have "list_all isBlankRow (drop k (drop (getLastRow g) g))"
    using blank_after_last[of g] unfolding list_all_iff by blast
  ultimately have b: "list_all isBlankRow (drop (getLastRow g + k) g)" by simp
  have l: "getLastRow g' = getLastRow g" unfolding assms by (rule getLastRow_take[OF b refl])
  have "take (getLastRow g) g' = take (getLastRow g) g"
    unfolding assms using getLastRow_le[of g] by simp
  with l show ?thesis by (simp add: dataRows_def)
qed

lemma rectangular_widths:
  assumes "rectangular g" "1 \<le> i" "1 \<le> l" "i - 1 + l \<le> length g"
  shows "list_all (\<lambda>r. length r = length (hd (take l (drop (i - 1) g)))) (take l (drop (i - 1) g))
         \<and> hd (take l (drop (i - 1) g)) \<noteq> []"
proof -
  let ?o = "take l (drop (i - 1) g)"
  from assms(1) have all: "list_all (\<lambda>r. length r = length (hd g)) g" and ne: "hd g \<noteq> []"
    unfolding rectangular_def by simp_all
  have sub: "set ?o \<subseteq> set g"
  proof
    fix x assume "x \<in> set ?o"
    then have "x \<in> set (drop (i - 1) g)" by (rule in_set_takeD)
    then show "x \<in> set g" by (rule in_set_dropD)
  qed
  have "length ?o = l" using assms(4) by simp
  then have "?o \<noteq> []" using assms(3) by (cases ?o) simp_all
  then have "hd ?o \<in> set ?o" by (rule hd_in_set)
  then have "hd ?o \<in> set g" using sub by (rule subsetD[rotated])
  then have h: "length (hd ?o) = length (hd g)" using all unfolding list_all_iff by (rule bspec[rotated])
  have 1: "list_all (\<lambda>r. length r = length (hd ?o)) ?o"
    unfolding list_all_iff h
  proof
    fix x assume "x \<in> set ?o"
    then have "x \<in> set g" using sub by (rule subsetD[rotated])
    then show "length x = length (hd g)" using all unfolding list_all_iff by (rule bspec[rotated])
  qed
  have 2: "hd ?o \<noteq> []" using h ne by (metis length_0_conv)
  from 1 2 show ?thesis by (rule conjI)
qed

text \<open>What both variants do with an attempt that failed.\<close>

lemma failed_attempt_restored:
  assumes orig: "getValues g i (int (getLastRow g) - int i + 1) = Inr originalData"
    and rect: "rectangular g"
    and nf: "\<forall>n. \<not> sheetFault e (DeleteRows (i + 1) n)" "\<forall>c vals. \<not> sheetFault e (SetValues i c vals)"
    and fail: "outcome d = Inl err"
    and pw: "partlyWritten g i (newRowsCount d) (grid (after d))"
    and c: "compensate e i originalData d = (res, ts', w')"
  shows "dataRows (grid w') = dataRows g \<and> getLastRow (grid w') = getLastRow g"
proof -
  let ?l = "nat (int (getLastRow g) - int i + 1)"
  from getValues_ok[OF orig] have i: "1 \<le> i" and l: "1 \<le> ?l" and b: "i - 1 + ?l \<le> length g"
    and o: "originalData = take ?l (drop (i - 1) g)"
    by auto
  have lr: "i - 1 + ?l = getLastRow g" using i l by auto
  from rectangular_widths[OF rect i l b] o
  have w: "list_all (\<lambda>r. length r = length (hd originalData)) originalData" "hd originalData \<noteq> []"
    by auto
  have nf1: "\<not> sheetFault e (DeleteRows (i + 1) (newRowsCount d))" using nf(1) by blast
  have nf2: "\<not> sheetFault e (SetValues i (length (hd originalData)) originalData)" using nf(2) by blast
  from rollback_restores[OF i l b o w nf1 nf2 pw]
  obtain k where "snd (rollbackChanges e (grid (after d)) i (newRowsCount d) originalData)
                    = take (i - 1 + ?l) g @ drop (i - 1 + ?l + k) g"
    by blast
  then have "snd (rollbackChanges e (grid (after d)) i (newRowsCount d) originalData)
                    = take (getLastRow g) g @ drop (getLastRow g + k) g"
    by (simp only: lr)
  moreover from compensate_fail[OF fail c]
  have "grid w' = snd (rollbackChanges e (grid (after d)) i (newRowsCount d) originalData)"
    by (rule conjunct1)
  ultimately have "grid w' = take (getLastRow g) g @ drop (getLastRow g + k) g"
    by simp
  from dataRows_restored[OF this] show ?thesis .
qed

lemma process_failure_restored:
  assumes run: "processPayoutTransactions e payoutRow p ts headers ci w = (Inl err, ts', w')"
    and rect: "rectangular (grid w)"
    and nf: "\<forall>n. \<not> sheetFault e (DeleteRows (rowIndex payoutRow + 1) n)"
            "\<forall>c vals. \<not> sheetFault e (SetValues (rowIndex payoutRow) c vals)"
  shows "dataRows (grid w') = dataRows (grid w) \<and> getLastRow (grid w') = getLastRow (grid w)"
proof (cases "getValues (grid w) (rowIndex payoutRow) 1")
  case (Inl e1)
  with run show ?thesis by (simp add: processPayoutTransactions_def)
next
  case prr: (Inr payoutRowRange)
  show ?thesis
  proof (cases "getValues (grid w) (rowIndex payoutRow)
                  (int (getLastRow (grid w)) - int (rowIndex payoutRow) + 1)")
    case (Inl e2)
    with run prr show ?thesis by (simp add: processPayoutTransactions_def)
  next
    case (Inr originalData)
    let ?a = "resolveDetails e p ts w"
    let ?d = "decompose e payoutRow headers (hd payoutRowRange) ci ?a"
    from run prr Inr have c: "compensate e (rowIndex payoutRow) originalData ?d = (Inl err, ts', w')"
      by (simp add: processPayoutTransactions_def)
    show ?thesis
    proof (cases "outcome ?d")
      case ok: (Inr u)
      from compensate_ok[OF ok, of e "rowIndex payoutRow" originalData] c show ?thesis by simp
    next
      case fl: (Inl err1)
      from decompose_fail[OF fl] have "partlyWritten (grid w) (rowIndex payoutRow) (newRowsCount ?d)
                                         (grid (after ?d))"
        by (simp add: resolveDetails_grid)
      from failed_attempt_restored[OF Inr rect nf fl this c] show ?thesis .
    qed
  qed
qed

lemma tt_process_failure_restored:
  assumes run: "tt_processPayoutTransactions e payoutRow p ts headers ci w = (Inl err, ts', w')"
    and rect: "rectangular (grid w)"
    and nf: "\<forall>n. \<not> sheetFault e (DeleteRows (rowIndex payoutRow + 1) n)"
            "\<forall>c vals. \<not> sheetFault e (SetValues (rowIndex payoutRow) c vals)"
  shows "dataRows (grid w') = dataRows (grid w) \<and> getLastRow (grid w') = getLastRow (grid w)"
proof (cases "getValues (grid w) (rowIndex payoutRow) 1")
  case (Inl e1)
  with run show ?thesis by (simp add: tt_processPayoutTransactions_def)
next
  case prr: (Inr payoutRowRange)
  show ?thesis
  proof (cases "getValues (grid w) (rowIndex payoutRow)
                  (int (getLastRow (grid w)) - int (rowIndex payoutRow) + 1)")
    case (Inl e2)
    with run prr show ?thesis by (simp add: tt_processPayoutTransactions_def)
  next
    case (Inr originalData)
    let ?a = "resolveDetails e p ts w"
    let ?d = "tt_decompose e payoutRow p headers (hd payoutRowRange) ci ?a"
    from run prr Inr have c: "compensate e (rowIndex payoutRow) originalData ?d = (Inl err, ts', w')"
      by (simp add: tt_processPayoutTransactions_def)
    show ?thesis
    proof (cases "outcome ?d")
      case ok: (Inr u)
      from compensate_ok[OF ok, of e "rowIndex payoutRow" originalData] c show ?thesis by simp
    next
      case fl: (Inl err1)
      from tt_decompose_fail[OF fl] have "partlyWritten (grid w) (rowIndex payoutRow) (newRowsCount ?d)
                                         (grid (after ?d))"
        by (simp add: resolveDetails_grid)
      from failed_attempt_restored[OF Inr rect nf fl this c] show ?thesis .
    qed
  qed
qed


text \<open>
  Claim C2. Take a sheet whose rows all have the width of its header row, and a sheet
  service that does not throw on the two calls of \<open>rollbackChanges\<close> (the deletion below
  the payout row and the write of the saved rows at the payout row); any other call of the
  service may throw. Whenever \<open>processPayoutTransactions\<close> raises an error, in either
  variant and whatever failed (the charges, the receipts, the conservation test, the
  insertion of the rows, the write of their values, the zeroing of the amount), the rows
  of the sheet up to its last row with content hold exactly the values they held before
  the payout was processed, and the last row with content is the same. This holds whether
  the new rows had been inserted or not: when they had not, the rows that
  \<open>rollbackChanges\<close> deletes below the payout row are rewritten from the saved values, or
  the deletion is out of range and changes nothing.
\<close>

theorem rollback_restores_ledger:
  assumes rect: "rectangular (grid w)"
    and nf: "\<forall>n. \<not> sheetFault e (DeleteRows (rowIndex payoutRow + 1) n)"
            "\<forall>c vals. \<not> sheetFault e (SetValues (rowIndex payoutRow) c vals)"
  shows "(processPayoutTransactions e payoutRow p ts headers ci w = (Inl err, ts', w') \<longrightarrow>
            dataRows (grid w') = dataRows (grid w) \<and> getLastRow (grid w') = getLastRow (grid w))
       \<and> (tt_processPayoutTransactions e payoutRow p ts headers ci w = (Inl err, ts', w') \<longrightarrow>
            dataRows (grid w') = dataRows (grid w) \<and> getLastRow (grid w') = getLastRow (grid w))"
proof (rule conjI)
  show "processPayoutTransactions e payoutRow p ts headers ci w = (Inl err, ts', w') \<longrightarrow>
            dataRows (grid w') = dataRows (grid w) \<and> getLastRow (grid w') = getLastRow (grid w)"
  proof (rule impI)
    assume "processPayoutTransactions e payoutRow p ts headers ci w = (Inl err, ts', w')"
    from process_failure_restored[OF this rect nf]
    show "dataRows (grid w') = dataRows (grid w) \<and> getLastRow (grid w') = getLastRow (grid w)" .
  qed
next
  show "tt_processPayoutTransactions e payoutRow p ts headers ci w = (Inl err, ts', w') \<longrightarrow>
            dataRows (grid w') = dataRows (grid w) \<and> getLastRow (grid w') = getLastRow (grid w)"
  proof (rule impI)
    assume "tt_processPayoutTransactions e payoutRow p ts headers ci w = (Inl err, ts', w')"
    from tt_process_failure_restored[OF this rect nf]
    show "dataRows (grid w') = dataRows (grid w) \<and> getLastRow (grid w') = getLastRow (grid w)" .
  qed
qed


theorem rollback_restores_ledger_witness:
  "\<exists>ts' w'. processPayoutTransactions (exZeroFaultEnv exTxs) exRow (exPayouts ! 1) exTxs exHeaders
                exSimpleColumns exWorld
              = (Inl (TransactionProcessingFailed ServiceFailure), ts', w')
      \<and> dataRows (grid w') = dataRows exGrid
      \<and> rectangular exGrid"
proof -
  have "case processPayoutTransactions (exZeroFaultEnv exTxs) exRow (exPayouts ! 1) exTxs exHeaders
               exSimpleColumns exWorld of
          (Inl err, ts', w') \<Rightarrow> err = TransactionProcessingFailed ServiceFailure
        | (Inr u, ts', w') \<Rightarrow> False"
    by code_simp
  then obtain ts' w' where
    run: "processPayoutTransactions (exZeroFaultEnv exTxs) exRow (exPayouts ! 1) exTxs exHeaders
            exSimpleColumns exWorld = (Inl (TransactionProcessingFailed ServiceFailure), ts', w')"
    by (auto split: prod.splits sum.splits)
  have rect: "rectangular (grid exWorld)" by code_simp
  have nf: "\<forall>n. \<not> sheetFault (exZeroFaultEnv exTxs) (DeleteRows (rowIndex exRow + 1) n)"
    "\<forall>c vals. \<not> sheetFault (exZeroFaultEnv exTxs) (SetValues (rowIndex exRow) c vals)"
    by (simp_all add: exZeroFaultEnv_def)
  from rollback_restores_ledger[OF rect nf, of "exPayouts ! 1" exTxs exHeaders exSimpleColumns
      "TransactionProcessingFailed ServiceFailure" ts' w'] run
  have "dataRows (grid w') = dataRows (grid exWorld)" by blast
  then have d: "dataRows (grid w') = dataRows exGrid" by (simp add: exWorld_def)
  have r: "rectangular exGrid" using rect by (simp add: exWorld_def)
  show ?thesis by (intro exI[of _ ts'] exI[of _ "w'"] conjI) (fact run d r)+
qed

subsection \<open>Ledger Writer: the committed batch and the payout row's amount\<close>











subsection \<open>Transaction Decomposer: the conservation test\<close>








subsection \<open>Claim C1: the conservation test of the two variants\<close>




subsection \<open>The run: what the \<open>try\<close> block leaves untouched\<close>





text \<open>No step of \<open>processPayoutTransactions\<close> sends an email.\<close>

lemma deleteFiles_emails [simp]: "emails (deleteFiles fc w) = emails w"
  by (simp add: deleteFiles_def)






















subsection \<open>Claim C3: the summary email of a run\<close>




end
